theory Spec2Isabelle
  imports
    Complex_Main
    "HOL-Library.AList"
    "HOL-Library.Char_ord"
    "HOL-Library.List_Lexorder"
begin

section \<open>Python values used by the application\<close>

text \<open>
  A Python \<open>dict\<close> is an association list with pairwise distinct keys, kept in
  insertion order. \<open>d[k] = v\<close> is \<^const>\<open>AList.update\<close>: it overwrites the value of a
  key that is present, in place, and appends a new key at the end. \<open>d.get(k)\<close> is
  \<^const>\<open>map_of\<close>, \<open>d.values()\<close> is \<open>map snd\<close>, \<open>d.items()\<close> is the list itself and
  \<open>len(d)\<close> is \<^const>\<open>length\<close>.
\<close>

type_synonym ('k, 'v) dict = "('k \<times> 'v) list"

definition dict_get :: "('k, 'v) dict \<Rightarrow> 'k \<Rightarrow> 'v \<Rightarrow> 'v" where
  \<comment> \<open>\<open>d.get(k, default)\<close>\<close>
  "dict_get d k dflt = (case map_of d k of None \<Rightarrow> dflt | Some v \<Rightarrow> v)"

definition startswith :: "string \<Rightarrow> string \<Rightarrow> bool" where
  \<comment> \<open>\<open>s.startswith(p)\<close>\<close>
  "startswith s p = (take (length p) s = p)"

text \<open>
  Exceptions are values. \<open>RemoteException\<close> is whatever the client of the remote
  store raises from \<open>execute()\<close>, with its message; \<open>LibraryException\<close> is what
  \<open>bcrypt.checkpw\<close> raises on a malformed hash.
\<close>

datatype exn =
    RemoteException string
  | NameError string
  | KeyError string
  | LibraryException string

fun exn_str :: "exn \<Rightarrow> string" where
  \<comment> \<open>\<open>str(e)\<close>, as interpolated by \<open>print(f"...: {e}")\<close>\<close>
  "exn_str (RemoteException m) = m"
| "exn_str (NameError n) = ''name '' @ [CHR 0x27] @ n @ [CHR 0x27] @ '' is not defined''"
| "exn_str (KeyError k) = [CHR 0x27] @ k @ [CHR 0x27]"
| "exn_str (LibraryException m) = m"

text \<open>\<open>str(i)\<close> of a Python integer: decimal digits, with a minus sign when negative.\<close>

fun nat_digits :: "nat \<Rightarrow> string" where
  "nat_digits n =
     (if n < 10 then [char_of (48 + n)]
      else nat_digits (n div 10) @ [char_of (48 + n mod 10)])"

declare nat_digits.simps [simp del]

definition py_str_int :: "int \<Rightarrow> string" where
  "py_str_int i = (if i < 0 then CHR ''-'' # nat_digits (nat (- i)) else nat_digits (nat i))"

text \<open>
  A Python number is an integer or a \<open>float\<close>, a \<open>float\<close> being given by its value.
  Two operations on numbers are parameters of the model, because their result depends
  on the binary rounding of \<open>float\<close> arithmetic: \<open>truediv a b\<close> is the \<open>float\<close> that
  \<open>a / b\<close> returns for two integers, and \<open>roundf x\<close> is the \<open>float\<close> that
  \<open>round(x, 2)\<close> returns for a \<open>float\<close>. \<open>round(i, 2)\<close> of an integer is the integer.
\<close>

datatype pynum = PyInt int | PyFloat real

fun num_val :: "pynum \<Rightarrow> real" where
  "num_val (PyInt i) = real_of_int i"
| "num_val (PyFloat x) = x"

fun py_round :: "(real \<Rightarrow> real) \<Rightarrow> pynum \<Rightarrow> pynum" where
  \<comment> \<open>\<open>round(n, 2)\<close>\<close>
  "py_round roundf (PyInt i) = PyInt i"
| "py_round roundf (PyFloat x) = PyFloat (roundf x)"

text \<open>
  The attendance percentage \<open>(count / 30) * 100\<close> is computed on \<^typ>\<open>real\<close> and
  rounded to two decimals, a tie going to the even neighbour: a third of a thousand
  times a count is never half-way between two hundredths.
\<close>

definition round_half_even :: "real \<Rightarrow> int" where
  "round_half_even x =
     (let f = \<lfloor>x\<rfloor>; d = x - of_int f
      in if d < 1 / 2 then f else if 1 / 2 < d then f + 1 else if even f then f else f + 1)"

definition py_round2 :: "real \<Rightarrow> real" where
  "py_round2 x = of_int (round_half_even (x * 100)) / 100"

section \<open>The remote tables\<close>

text \<open>
  Rows carry the columns the application writes or reads (\<open>src/database.py\<close>). Field
  names are the column names behind a prefix for the table; the store is a record of
  the six tables, each a list of rows.
\<close>

record user_row =
  u_username :: string
  u_password_hash :: string
  u_role :: string
  u_created_at :: string
  u_student_id :: "int option"

record student_row =
  s_id :: int
  s_name :: string
  s_age :: int
  s_class :: string
  s_section :: string
  s_face_data :: "string option"
  s_created_at :: string
  s_updated_at :: string

record teacher_row =
  t_id :: int
  t_name :: string
  t_subject :: string
  t_created_at :: string
  t_updated_at :: string

record mark_row =
  m_student_id :: int
  m_subject :: string
  m_mark :: int
  m_created_at :: string

record grade_row =
  g_student_id :: int
  g_subject :: string
  g_grade :: string
  g_created_at :: string

record attendance_row =
  a_student_id :: int
  a_date :: string
  a_face_data :: "string option"
  a_created_at :: string
  a_updated_at :: string

record tables =
  users_table :: "user_row list"
  students_table :: "student_row list"
  teachers_table :: "teacher_row list"
  marks_table :: "mark_row list"
  grades_table :: "grade_row list"
  attendance_table :: "attendance_row list"

text \<open>
  A call of \<open>execute()\<close> either succeeds, or raises before the store has applied the
  request, or raises after the store has applied it (the answer is lost). The outcomes
  of the calls to come are an input of the model: the list \<open>faults\<close>, read one entry
  per call; once it is used up every call succeeds.

  The process also prints to standard output, flashes messages to the browser session
  and reads the clock: \<open>timeline\<close> is the sequence of values that
  \<open>datetime.now().isoformat()\<close> returns, \<open>reads\<close> counts the calls made so far, and
  \<open>today\<close> is \<open>date.today().isoformat()\<close>.
\<close>

datatype outcome = Succeeds | Raises_before string | Raises_after string

record world =
  db :: tables
  faults :: "outcome list"
  stdout :: "string list"
  flashes :: "(string \<times> string) list"
  timeline :: "nat \<Rightarrow> string"
  reads :: nat
  today :: string

definition print :: "string \<Rightarrow> world \<Rightarrow> world" where
  "print line w = w\<lparr>stdout := stdout w @ [line]\<rparr>"

definition flash :: "string \<Rightarrow> string \<Rightarrow> world \<Rightarrow> world" where
  "flash message category w = w\<lparr>flashes := flashes w @ [(message, category)]\<rparr>"

definition datetime_now :: "world \<Rightarrow> string \<times> world" where
  "datetime_now w = (timeline w (reads w), w\<lparr>reads := Suc (reads w)\<rparr>)"

definition execute :: "(tables \<Rightarrow> 'r \<times> tables) \<Rightarrow> world \<Rightarrow> (exn + 'r) \<times> world" where
  "execute request w =
     (case faults w of
        [] \<Rightarrow> (Inr (fst (request (db w))), w\<lparr>db := snd (request (db w))\<rparr>)
      | Succeeds # fs \<Rightarrow>
          (Inr (fst (request (db w))), w\<lparr>db := snd (request (db w)), faults := fs\<rparr>)
      | Raises_before msg # fs \<Rightarrow> (Inl (RemoteException msg), w\<lparr>faults := fs\<rparr>)
      | Raises_after msg # fs \<Rightarrow>
          (Inl (RemoteException msg), w\<lparr>db := snd (request (db w)), faults := fs\<rparr>))"

definition reliable :: "world \<Rightarrow> bool" where
  \<comment> \<open>no call to come raises\<close>
  "reliable w = list_all (\<lambda>f. f = Succeeds) (faults w)"

definition first_row :: "'a list \<Rightarrow> 'a option" where
  \<comment> \<open>\<open>result.data[0] if result.data else None\<close>\<close>
  "first_row rows = (case rows of [] \<Rightarrow> None | r # _ \<Rightarrow> Some r)"

section \<open>The database layer (\<open>src/database.py\<close>)\<close>

text \<open>
  Every method of \<open>DatabaseService\<close> takes the world and returns its result with the
  world after the call. A \<open>try\<close>/\<open>except Exception\<close> block is the case distinction on
  the result of \<^const>\<open>execute\<close>. Rows come back in table order where the request
  names no order, and in the order of the named column otherwise.
\<close>

subsection \<open>Users\<close>

definition get_user :: "string \<Rightarrow> world \<Rightarrow> user_row option \<times> world" where
  "get_user username w =
     (case execute (\<lambda>t. (filter (\<lambda>u. u_username u = username) (users_table t), t)) w of
        (Inr data, w1) \<Rightarrow> (first_row data, w1)
      | (Inl e, w1) \<Rightarrow> (None, print (''Error getting user: '' @ exn_str e) w1))"

text \<open>
  \<open>verify_user\<close> has no \<open>try\<close> block of its own. \<open>bcrypt.checkpw\<close> is a parameter
  (\<open>checkpw password hash\<close>, which may raise). The name \<open>check_password_hash\<close> is not
  bound in \<open>database.py\<close>: the module imports \<open>generate_password_hash\<close> only, so
  evaluating the \<open>elif\<close> condition for a user that was found raises \<open>NameError\<close>.
\<close>

definition verify_user ::
  "(string \<Rightarrow> string \<Rightarrow> exn + bool) \<Rightarrow> string \<Rightarrow> string \<Rightarrow> world
     \<Rightarrow> (exn + user_row option) \<times> world" where
  "verify_user checkpw username password w =
     (case get_user username w of
        (None, w1) \<Rightarrow> (Inr None, w1)
      | (Some user, w1) \<Rightarrow>
          if startswith (u_password_hash user) ''$2b$'' then
            (case checkpw password (u_password_hash user) of
               Inl e \<Rightarrow> (Inl e, w1)
             | Inr True \<Rightarrow> (Inr (Some user), w1)
             | Inr False \<Rightarrow> (Inr None, w1))
          else (Inl (NameError ''check_password_hash''), w1))"

subsection \<open>Students and teachers\<close>

definition get_student :: "int \<Rightarrow> world \<Rightarrow> student_row option \<times> world" where
  "get_student student_id w =
     (case execute (\<lambda>t. (filter (\<lambda>s. s_id s = student_id) (students_table t), t)) w of
        (Inr data, w1) \<Rightarrow> (first_row data, w1)
      | (Inl e, w1) \<Rightarrow> (None, print (''Error getting student: '' @ exn_str e) w1))"

definition get_all_students :: "world \<Rightarrow> student_row list \<times> world" where
  "get_all_students w =
     (case execute (\<lambda>t. (sort_key s_name (students_table t), t)) w of
        (Inr data, w1) \<Rightarrow> (data, w1)
      | (Inl e, w1) \<Rightarrow> ([], print (''Error getting students: '' @ exn_str e) w1))"

definition delete_student :: "int \<Rightarrow> world \<Rightarrow> bool \<times> world" where
  "delete_student student_id w =
     (case execute
             (\<lambda>t. (filter (\<lambda>s. s_id s = student_id) (students_table t),
                   t\<lparr>students_table := filter (\<lambda>s. s_id s \<noteq> student_id) (students_table t)\<rparr>)) w of
        (Inr result, w1) \<Rightarrow> (True, w1)
      | (Inl e, w1) \<Rightarrow> (False, print (''Error deleting student: '' @ exn_str e) w1))"

definition get_all_teachers :: "world \<Rightarrow> teacher_row list \<times> world" where
  "get_all_teachers w =
     (case execute (\<lambda>t. (sort_key t_name (teachers_table t), t)) w of
        (Inr data, w1) \<Rightarrow> (data, w1)
      | (Inl e, w1) \<Rightarrow> ([], print (''Error getting teachers: '' @ exn_str e) w1))"

subsection \<open>Marks and grades\<close>

fun marks_records :: "int \<Rightarrow> (string, int) dict \<Rightarrow> world \<Rightarrow> mark_row list \<times> world" where
  \<comment> \<open>the loop \<open>for subject, mark in marks_data.items(): marks_records.append({...})\<close>\<close>
  "marks_records student_id [] w = ([], w)"
| "marks_records student_id ((subject, mark) # rest) w =
     (case datetime_now w of
        (now, w1) \<Rightarrow>
          (case marks_records student_id rest w1 of
             (records, w2) \<Rightarrow>
               (\<lparr>m_student_id = student_id, m_subject = subject, m_mark = mark,
                 m_created_at = now\<rparr> # records, w2)))"

definition save_marks :: "int \<Rightarrow> (string, int) dict \<Rightarrow> world \<Rightarrow> mark_row list \<times> world" where
  "save_marks student_id marks_data w =
     (case execute
             (\<lambda>t. (filter (\<lambda>m. m_student_id m = student_id) (marks_table t),
                   t\<lparr>marks_table := filter (\<lambda>m. m_student_id m \<noteq> student_id) (marks_table t)\<rparr>)) w of
        (Inl e, w1) \<Rightarrow> ([], print (''Error saving marks: '' @ exn_str e) w1)
      | (Inr deleted, w1) \<Rightarrow>
          (case marks_records student_id marks_data w1 of
             (records, w2) \<Rightarrow>
               if records \<noteq> [] then
                 (case execute (\<lambda>t. (records, t\<lparr>marks_table := marks_table t @ records\<rparr>)) w2 of
                    (Inr data, w3) \<Rightarrow> (data, w3)
                  | (Inl e, w3) \<Rightarrow> ([], print (''Error saving marks: '' @ exn_str e) w3))
               else ([], w2)))"

definition get_student_marks :: "int \<Rightarrow> world \<Rightarrow> (string, int) dict \<times> world" where
  "get_student_marks student_id w =
     (case execute (\<lambda>t. (filter (\<lambda>m. m_student_id m = student_id) (marks_table t), t)) w of
        (Inr data, w1) \<Rightarrow>
          (fold (\<lambda>record marks. AList.update (m_subject record) (m_mark record) marks) data [], w1)
      | (Inl e, w1) \<Rightarrow> ([], print (''Error getting marks: '' @ exn_str e) w1))"

fun grades_records :: "int \<Rightarrow> (string, string) dict \<Rightarrow> world \<Rightarrow> grade_row list \<times> world" where
  "grades_records student_id [] w = ([], w)"
| "grades_records student_id ((subject, grade) # rest) w =
     (case datetime_now w of
        (now, w1) \<Rightarrow>
          (case grades_records student_id rest w1 of
             (records, w2) \<Rightarrow>
               (\<lparr>g_student_id = student_id, g_subject = subject, g_grade = grade,
                 g_created_at = now\<rparr> # records, w2)))"

definition save_grades :: "int \<Rightarrow> (string, string) dict \<Rightarrow> world \<Rightarrow> grade_row list \<times> world" where
  "save_grades student_id grades_data w =
     (case execute
             (\<lambda>t. (filter (\<lambda>g. g_student_id g = student_id) (grades_table t),
                   t\<lparr>grades_table := filter (\<lambda>g. g_student_id g \<noteq> student_id) (grades_table t)\<rparr>)) w of
        (Inl e, w1) \<Rightarrow> ([], print (''Error saving grades: '' @ exn_str e) w1)
      | (Inr deleted, w1) \<Rightarrow>
          (case grades_records student_id grades_data w1 of
             (records, w2) \<Rightarrow>
               if records \<noteq> [] then
                 (case execute (\<lambda>t. (records, t\<lparr>grades_table := grades_table t @ records\<rparr>)) w2 of
                    (Inr data, w3) \<Rightarrow> (data, w3)
                  | (Inl e, w3) \<Rightarrow> ([], print (''Error saving grades: '' @ exn_str e) w3))
               else ([], w2)))"

definition get_student_grades :: "int \<Rightarrow> world \<Rightarrow> (string, string) dict \<times> world" where
  "get_student_grades student_id w =
     (case execute (\<lambda>t. (filter (\<lambda>g. g_student_id g = student_id) (grades_table t), t)) w of
        (Inr data, w1) \<Rightarrow>
          (fold (\<lambda>record grades. AList.update (g_subject record) (g_grade record) grades) data [],
           w1)
      | (Inl e, w1) \<Rightarrow> ([], print (''Error getting grades: '' @ exn_str e) w1))"

subsection \<open>Attendance\<close>

definition db_mark_attendance ::
  "int \<Rightarrow> string \<Rightarrow> string option \<Rightarrow> world \<Rightarrow> attendance_row option \<times> world" where
  \<comment> \<open>\<open>DatabaseService.mark_attendance\<close>; the route of the same name is \<open>mark_attendance\<close>\<close>
  "db_mark_attendance student_id date_str face_data w =
     (case execute
             (\<lambda>t. (filter (\<lambda>a. a_student_id a = student_id \<and> a_date a = date_str)
                      (attendance_table t), t)) w of
        (Inl e, w1) \<Rightarrow> (None, print (''Error marking attendance: '' @ exn_str e) w1)
      | (Inr existing, w1) \<Rightarrow>
          if existing \<noteq> [] then
            (case datetime_now w1 of
               (now, w2) \<Rightarrow>
                 (case execute
                         (\<lambda>t. let upd = (\<lambda>a. if a_student_id a = student_id \<and> a_date a = date_str
                                             then a\<lparr>a_face_data := face_data, a_updated_at := now\<rparr>
                                             else a)
                              in (map upd
                                    (filter (\<lambda>a. a_student_id a = student_id \<and> a_date a = date_str)
                                       (attendance_table t)),
                                  t\<lparr>attendance_table := map upd (attendance_table t)\<rparr>)) w2 of
                    (Inr data, w3) \<Rightarrow> (first_row data, w3)
                  | (Inl e, w3) \<Rightarrow>
                      (None, print (''Error marking attendance: '' @ exn_str e) w3)))
          else
            (case datetime_now w1 of
               (created, w2) \<Rightarrow>
                 (case datetime_now w2 of
                    (updated, w3) \<Rightarrow>
                      (let attendance_data =
                             \<lparr>a_student_id = student_id, a_date = date_str,
                              a_face_data = face_data, a_created_at = created,
                              a_updated_at = updated\<rparr>
                       in case execute
                                 (\<lambda>t. ([attendance_data],
                                       t\<lparr>attendance_table := attendance_table t @ [attendance_data]\<rparr>)) w3 of
                            (Inr data, w4) \<Rightarrow> (first_row data, w4)
                          | (Inl e, w4) \<Rightarrow>
                              (None, print (''Error marking attendance: '' @ exn_str e) w4)))))"

definition get_student_attendance :: "int \<Rightarrow> world \<Rightarrow> string list \<times> world" where
  "get_student_attendance student_id w =
     (case execute
             (\<lambda>t. (rev (sort_key a_date
                           (filter (\<lambda>a. a_student_id a = student_id) (attendance_table t))), t)) w of
        (Inr data, w1) \<Rightarrow> (map a_date data, w1)
      | (Inl e, w1) \<Rightarrow> ([], print (''Error getting attendance: '' @ exn_str e) w1))"

section \<open>The route handlers (\<open>src/app.py\<close>)\<close>

text \<open>
  A handler reads the browser session and the request and returns a response: a
  redirect to an endpoint, or a rendered template with the values passed to it.
  \<open>session.get(k)\<close> and \<open>request.form.get(k)\<close> are lookups in a map.
\<close>

type_synonym session = "string \<Rightarrow> string option"

datatype http_method = GET | POST

record request =
  req_method :: http_method
  req_form :: "string \<Rightarrow> string option"
  req_args :: "string \<Rightarrow> string option"

datatype 'c response = Redirect string | Render string 'c

subsection \<open>\<open>enter_marks\<close>\<close>

definition enter_marks_grade :: "int \<Rightarrow> string" where
  \<comment> \<open>the chain \<open>if mark >= 90: ... elif mark >= 80: ...\<close> of \<open>enter_marks\<close>\<close>
  "enter_marks_grade mark =
     (if mark \<ge> 90 then ''A''
      else if mark \<ge> 80 then ''B''
      else if mark \<ge> 70 then ''C''
      else if mark \<ge> 60 then ''D''
      else if mark \<ge> 40 then ''E''
      else ''F'')"

definition mark_key :: "int \<Rightarrow> string \<Rightarrow> string" where
  \<comment> \<open>\<open>f"marks_{student['id']}_{subject}"\<close>\<close>
  "mark_key student_id subject = ''marks_'' @ py_str_int student_id @ ''_'' @ subject"

text \<open>
  The loop over the subjects of one student. \<open>to_int\<close> is Python's \<open>int()\<close> on a
  string, \<open>None\<close> standing for \<open>ValueError\<close>; the handler swallows that error and
  goes on with the next subject.
\<close>

fun enter_marks_subjects ::
  "(string \<Rightarrow> int option) \<Rightarrow> (string \<Rightarrow> string option) \<Rightarrow> int \<Rightarrow> string list
     \<Rightarrow> (string, int) dict \<times> (string, string) dict
     \<Rightarrow> (string, int) dict \<times> (string, string) dict" where
  "enter_marks_subjects to_int form student_id [] (marks, grades) = (marks, grades)"
| "enter_marks_subjects to_int form student_id (subject # rest) (marks, grades) =
     (case form (mark_key student_id subject) of
        None \<Rightarrow> enter_marks_subjects to_int form student_id rest (marks, grades)
      | Some mark_val \<Rightarrow>
          if mark_val \<noteq> [] then
            (case to_int mark_val of
               Some mark \<Rightarrow>
                 enter_marks_subjects to_int form student_id rest
                   (AList.update subject mark marks,
                    AList.update subject (enter_marks_grade mark) grades)
             | None \<Rightarrow> enter_marks_subjects to_int form student_id rest (marks, grades))
          else enter_marks_subjects to_int form student_id rest (marks, grades))"

definition enter_marks_student ::
  "(string \<Rightarrow> int option) \<Rightarrow> (string \<Rightarrow> string option) \<Rightarrow> string list
     \<Rightarrow> student_row \<Rightarrow> world \<Rightarrow> world" where
  \<comment> \<open>the body of the loop \<open>for student in filtered_students\<close>\<close>
  "enter_marks_student to_int form subjects student w =
     (case enter_marks_subjects to_int form (s_id student) subjects ([], []) of
        (marks, grades) \<Rightarrow>
          (let w1 = (if marks \<noteq> [] then snd (save_marks (s_id student) marks w) else w)
           in if grades \<noteq> [] then snd (save_grades (s_id student) grades w1) else w1))"

fun enter_marks_students ::
  "(string \<Rightarrow> int option) \<Rightarrow> (string \<Rightarrow> string option) \<Rightarrow> string list
     \<Rightarrow> student_row list \<Rightarrow> world \<Rightarrow> world" where
  "enter_marks_students to_int form subjects [] w = w"
| "enter_marks_students to_int form subjects (student # rest) w =
     enter_marks_students to_int form subjects rest
       (enter_marks_student to_int form subjects student w)"

definition enter_marks ::
  "(string \<Rightarrow> int option) \<Rightarrow> session \<Rightarrow> request \<Rightarrow> string \<Rightarrow> string \<Rightarrow> world
     \<Rightarrow> (student_row list \<times> string list \<times> string \<times> string) response \<times> world" where
  "enter_marks to_int session request class_name section w =
     (if session ''role'' \<noteq> Some ''teacher'' then (Redirect ''login'', w)
      else
        (case get_all_students w of
           (students, w1) \<Rightarrow>
             (let filtered_students =
                    filter (\<lambda>s. s_class s = class_name \<and> s_section s = section) students
              in case get_all_teachers w1 of
                   (teachers, w2) \<Rightarrow>
                     (let subjects = map t_subject teachers
                      in if req_method request = POST then
                           (Redirect ''list_students'',
                            flash ''Marks and grades updated!'' ''success''
                              (enter_marks_students to_int (req_form request) subjects
                                 filtered_students w2))
                         else
                           (Render ''enter_marks.html''
                              (filtered_students, subjects, class_name, section), w2)))))"

subsection \<open>\<open>delete_student\<close>\<close>

definition delete_student_route :: "session \<Rightarrow> int \<Rightarrow> world \<Rightarrow> unit response \<times> world" where
  \<comment> \<open>the handler \<open>delete_student\<close> of \<open>app.py\<close>\<close>
  "delete_student_route session student_id w =
     (if session ''role'' \<notin> {Some ''principal'', Some ''teacher''} then (Redirect ''login'', w)
      else
        (case delete_student student_id w of
           (True, w1) \<Rightarrow>
             (Redirect ''list_students'', flash ''Student deleted successfully!'' ''success'' w1)
         | (False, w1) \<Rightarrow>
             (Redirect ''list_students'',
              flash ''Error deleting student. Please try again.'' ''danger'' w1)))"

subsection \<open>\<open>mark_attendance\<close>\<close>

definition truthy_str :: "string option \<Rightarrow> bool" where
  \<comment> \<open>the truth value of an optional string: neither \<open>None\<close> nor empty\<close>
  "truthy_str v = (case v of None \<Rightarrow> False | Some s \<Rightarrow> s \<noteq> [])"

definition mark_attendance ::
  "session \<Rightarrow> request \<Rightarrow> world \<Rightarrow> (exn + (student_row \<times> string) response) \<times> world" where
  "mark_attendance session request w =
     (if session ''role'' \<noteq> Some ''student'' then (Inr (Redirect ''login''), w)
      else
        (case session ''username'' of
           None \<Rightarrow> (Inl (KeyError ''username''), w)
         | Some username \<Rightarrow>
             (case get_user username w of
                (user, w1) \<Rightarrow>
                  (case (case user of None \<Rightarrow> None | Some u \<Rightarrow> u_student_id u) of
                     None \<Rightarrow>
                       (Inr (Redirect ''dashboard_student''),
                        flash ''Student data not found.'' ''danger'' w1)
                   | Some student_id \<Rightarrow>
                       if student_id = 0 then
                         (Inr (Redirect ''dashboard_student''),
                          flash ''Student data not found.'' ''danger'' w1)
                       else
                         (case get_student student_id w1 of
                            (None, w2) \<Rightarrow>
                              (Inr (Redirect ''dashboard_student''),
                               flash ''Student data not found.'' ''danger'' w2)
                          | (Some student, w2) \<Rightarrow>
                              if req_method request = POST then
                                (let face_data = req_form request ''face_data'';
                                     w3 = print (''Received face data length: '' @
                                                 py_str_int (if truthy_str face_data
                                                             then int (length (the face_data))
                                                             else 0)) w2
                                 in if truthy_str face_data \<and> length (the face_data) > 100 then
                                      (case db_mark_attendance (s_id student) (today w3)
                                              face_data w3 of
                                         (Some attendance_record, w4) \<Rightarrow>
                                           (Inr (Redirect ''dashboard_student''),
                                            print (''Attendance marked for student '' @
                                                   s_name student @ '' on '' @ today w3)
                                              (flash ''Attendance marked successfully! Face image captured and stored.''
                                                 ''success'' w4))
                                       | (None, w4) \<Rightarrow>
                                           (Inr (Redirect ''dashboard_student''),
                                            flash ''Error marking attendance. Please try again.''
                                              ''danger'' w4))
                                    else
                                      (Inr (Redirect ''dashboard_student''),
                                       print ''No valid face data received''
                                         (flash ''No valid face image captured. Please ensure your camera is working and try again.''
                                            ''danger'' w3)))
                              else
                                (Inr (Render ''mark_attendance.html'' (student, today w2)),
                                 w2))))))"

subsection \<open>\<open>student_report\<close>\<close>

record report_data =
  rd_student :: student_row
  rd_attendance_percentage :: real
  rd_average_marks :: pynum
  rd_grade_distribution :: "(string, nat) dict"
  rd_total_subjects :: nat
  rd_total_attendance_days :: nat

definition student_report_attendance_percentage :: "string list \<Rightarrow> real" where
  \<comment> \<open>the local \<open>attendance_percentage\<close> of \<open>student_report\<close>\<close>
  "student_report_attendance_percentage attendance =
     (let total_days = (30 :: nat)
      in if total_days > 0 then (real (length attendance) / real total_days) * 100 else 0)"

definition student_report_average_marks ::
  "(int \<Rightarrow> int \<Rightarrow> real) \<Rightarrow> (string, int) dict \<Rightarrow> pynum" where
  \<comment> \<open>the local \<open>average_marks\<close> of \<open>student_report\<close>\<close>
  "student_report_average_marks truediv marks =
     (if marks \<noteq> [] then PyFloat (truediv (sum_list (map snd marks)) (int (length marks)))
      else PyInt 0)"

definition student_report_grade_distribution :: "(string, string) dict \<Rightarrow> (string, nat) dict" where
  \<comment> \<open>the local \<open>grade_distribution\<close> of \<open>student_report\<close>\<close>
  "student_report_grade_distribution grades =
     (if grades \<noteq> [] then
        fold (\<lambda>grade grade_distribution.
                AList.update grade (dict_get grade_distribution grade 0 + 1) grade_distribution)
          (map snd grades) []
      else [])"

definition student_report_data ::
  "(int \<Rightarrow> int \<Rightarrow> real) \<Rightarrow> (real \<Rightarrow> real) \<Rightarrow> student_row \<Rightarrow> (string, int) dict
     \<Rightarrow> (string, string) dict \<Rightarrow> string list \<Rightarrow> report_data" where
  "student_report_data truediv roundf student marks grades attendance =
     \<lparr>rd_student = student,
      rd_attendance_percentage = py_round2 (student_report_attendance_percentage attendance),
      rd_average_marks = py_round roundf (student_report_average_marks truediv marks),
      rd_grade_distribution = student_report_grade_distribution grades,
      rd_total_subjects = (if marks \<noteq> [] then length marks else 0),
      rd_total_attendance_days = length attendance\<rparr>"

definition student_report ::
  "(int \<Rightarrow> int \<Rightarrow> real) \<Rightarrow> (real \<Rightarrow> real) \<Rightarrow> session \<Rightarrow> int \<Rightarrow> world
     \<Rightarrow> (report_data \<times> string option) response \<times> world" where
  "student_report truediv roundf session student_id w =
     (if session ''role'' \<notin> {Some ''principal'', Some ''teacher''} then (Redirect ''login'', w)
      else
        (case get_student student_id w of
           (None, w1) \<Rightarrow>
             (Redirect ''reports_dashboard'', flash ''Student not found.'' ''danger'' w1)
         | (Some student, w1) \<Rightarrow>
             (case get_student_marks student_id w1 of
                (marks, w2) \<Rightarrow>
                  (case get_student_grades student_id w2 of
                     (grades, w3) \<Rightarrow>
                       (case get_student_attendance student_id w3 of
                          (attendance, w4) \<Rightarrow>
                            (Render ''student_report.html''
                               (student_report_data truediv roundf student marks grades
                                  attendance,
                                session ''username''), w4))))))"

subsection \<open>\<open>attendance_report\<close>\<close>

record attendance_entry =
  ae_student :: student_row
  ae_attendance_days :: nat
  ae_attendance_percentage :: real
  ae_has_face_data :: bool

fun attendance_report_data :: "student_row list \<Rightarrow> world \<Rightarrow> attendance_entry list \<times> world" where
  \<comment> \<open>the loop \<open>for student in filtered_students: ... attendance_data.append({...})\<close>\<close>
  "attendance_report_data [] w = ([], w)"
| "attendance_report_data (student # rest) w =
     (case get_student_attendance (s_id student) w of
        (attendance, w1) \<Rightarrow>
          (let attendance_days = length attendance;
               attendance_percentage = (real attendance_days / 30) * 100
           in case attendance_report_data rest w1 of
                (attendance_data, w2) \<Rightarrow>
                  (\<lparr>ae_student = student,
                    ae_attendance_days = attendance_days,
                    ae_attendance_percentage = py_round2 attendance_percentage,
                    ae_has_face_data = truthy_str (s_face_data student)\<rparr> # attendance_data,
                   w2)))"

definition sort_reverse :: "('a \<Rightarrow> real) \<Rightarrow> 'a list \<Rightarrow> 'a list" where
  \<comment> \<open>\<open>xs.sort(key=f, reverse=True)\<close>: descending, equal keys keep their order\<close>
  "sort_reverse f xs = rev (sort_key f (rev xs))"

definition attendance_report ::
  "session \<Rightarrow> request \<Rightarrow> world
     \<Rightarrow> (attendance_entry list \<times> string list \<times> string list \<times> string option \<times> string option
          \<times> string option) response \<times> world" where
  "attendance_report session request w =
     (if session ''role'' \<notin> {Some ''principal'', Some ''teacher''} then (Redirect ''login'', w)
      else
        (let selected_class = req_args request ''class'';
             selected_section = req_args request ''section''
         in case get_all_students w of
              (students, w1) \<Rightarrow>
                (let classes = sort (remdups (map s_class students));
                     sections = sort (remdups (map s_section students));
                     filtered_c =
                       (if truthy_str selected_class
                        then filter (\<lambda>s. Some (s_class s) = selected_class) students
                        else students);
                     filtered_students =
                       (if truthy_str selected_section
                        then filter (\<lambda>s. Some (s_section s) = selected_section) filtered_c
                        else filtered_c)
                 in case attendance_report_data filtered_students w1 of
                      (attendance_data, w2) \<Rightarrow>
                        (Render ''attendance_report.html''
                           (sort_reverse ae_attendance_percentage attendance_data, classes,
                            sections, selected_class, selected_section, session ''username''),
                         w2))))"

subsection \<open>\<open>generate_ai_insights\<close>\<close>

text \<open>
  \<open>avg_marks\<close> reaches \<open>generate_ai_insights\<close> as the integer \<open>0\<close> (no marks) or as a
  \<open>float\<close>; both kinds are kept apart because the messages interpolate the number.
  \<open>format_num\<close> is Python's conversion of a number to text inside an f-string.
\<close>

record insights =
  performance_level :: string
  strengths :: "string list"
  weaknesses :: "string list"
  recommendations :: "string list"
  trend_analysis :: string
  attendance_impact :: string
  overall_assessment :: string

fun py_max_by :: "('a \<Rightarrow> int) \<Rightarrow> 'a \<Rightarrow> 'a list \<Rightarrow> 'a" where
  \<comment> \<open>\<open>max(xs, key=f)\<close>: the first element with the largest key\<close>
  "py_max_by f best [] = best"
| "py_max_by f best (x # xs) = py_max_by f (if f x > f best then x else best) xs"

fun py_min_by :: "('a \<Rightarrow> int) \<Rightarrow> 'a \<Rightarrow> 'a list \<Rightarrow> 'a" where
  \<comment> \<open>\<open>min(xs, key=f)\<close>: the first element with the smallest key\<close>
  "py_min_by f best [] = best"
| "py_min_by f best (x # xs) = py_min_by f (if f x < f best then x else best) xs"

definition performance_level_analysis ::
  "(pynum \<Rightarrow> string) \<Rightarrow> student_row \<Rightarrow> pynum \<Rightarrow> insights \<Rightarrow> insights" where
  \<comment> \<open>the block \<open># Performance Level Analysis\<close>\<close>
  "performance_level_analysis format_num student avg_marks insights =
     (if num_val avg_marks \<ge> 90 then
        insights\<lparr>performance_level := ''Excellent'',
                 overall_assessment := s_name student @
                   '' is performing exceptionally well with an average of '' @
                   format_num avg_marks @
                   ''%. This student demonstrates strong academic capabilities.''\<rparr>
      else if num_val avg_marks \<ge> 80 then
        insights\<lparr>performance_level := ''Good'',
                 overall_assessment := s_name student @
                   '' is performing well with an average of '' @ format_num avg_marks @
                   ''%. There's room for improvement but overall solid performance.''\<rparr>
      else if num_val avg_marks \<ge> 70 then
        insights\<lparr>performance_level := ''Average'',
                 overall_assessment := s_name student @
                   '' has average performance with '' @ format_num avg_marks @
                   ''%. This student needs additional support to improve.''\<rparr>
      else if num_val avg_marks \<ge> 60 then
        insights\<lparr>performance_level := ''Below Average'',
                 overall_assessment := s_name student @
                   '' is struggling academically with '' @ format_num avg_marks @
                   ''%. Immediate intervention is recommended.''\<rparr>
      else
        insights\<lparr>performance_level := ''Needs Improvement'',
                 overall_assessment := s_name student @
                   '' requires significant academic support with '' @ format_num avg_marks @
                   ''%. Urgent attention needed.''\<rparr>)"

definition subject_analysis :: "(string, int) dict \<Rightarrow> insights \<Rightarrow> insights" where
  \<comment> \<open>the block \<open># Subject-specific analysis\<close>\<close>
  "subject_analysis marks insights =
     (case marks of
        [] \<Rightarrow> insights
      | first # rest \<Rightarrow>
          (let best_subject = py_max_by snd first rest;
               worst_subject = py_min_by snd first rest;
               i1 = (if snd best_subject \<ge> 85 then
                       insights\<lparr>strengths := strengths insights @
                         [''Excels in '' @ fst best_subject @ '' with '' @
                          py_str_int (snd best_subject) @ ''%'']\<rparr>
                     else if snd best_subject \<ge> 75 then
                       insights\<lparr>strengths := strengths insights @
                         [''Shows potential in '' @ fst best_subject @ '' with '' @
                          py_str_int (snd best_subject) @ ''%'']\<rparr>
                     else insights);
               i2 = (if snd worst_subject < 70 then
                       i1\<lparr>weaknesses := weaknesses i1 @
                            [''Struggles in '' @ fst worst_subject @ '' with '' @
                             py_str_int (snd worst_subject) @ ''%''],
                          recommendations := recommendations i1 @
                            [''Provide additional support in '' @ fst worst_subject]\<rparr>
                     else i1);
               high_performing_subjects = map fst (filter (\<lambda>(subject, score). score \<ge> 80) marks);
               low_performing_subjects = map fst (filter (\<lambda>(subject, score). score < 70) marks)
           in if length high_performing_subjects > length low_performing_subjects then
                i2\<lparr>trend_analysis :=
                     ''Student shows consistent performance across most subjects''\<rparr>
              else if length low_performing_subjects > length high_performing_subjects then
                i2\<lparr>trend_analysis := ''Student needs improvement in multiple subjects''\<rparr>
              else i2\<lparr>trend_analysis := ''Mixed performance across subjects''\<rparr>))"

definition attendance_impact_analysis :: "real \<Rightarrow> insights \<Rightarrow> insights" where
  \<comment> \<open>the block \<open># Attendance impact analysis\<close>\<close>
  "attendance_impact_analysis attendance_percentage insights =
     (if attendance_percentage \<ge> 95 then
        insights\<lparr>attendance_impact :=
          ''Excellent attendance - this positively contributes to academic performance''\<rparr>
      else if attendance_percentage \<ge> 85 then
        insights\<lparr>attendance_impact :=
          ''Good attendance - consistent presence supports learning''\<rparr>
      else if attendance_percentage \<ge> 75 then
        insights\<lparr>attendance_impact :=
          ''Moderate attendance - irregular attendance may affect performance''\<rparr>
      else
        insights\<lparr>attendance_impact :=
                   ''Poor attendance - this significantly impacts academic performance'',
                 recommendations := recommendations insights @
                   [''Address attendance issues to improve academic outcomes'']\<rparr>)"

definition additional_recommendations :: "pynum \<Rightarrow> real \<Rightarrow> insights \<Rightarrow> insights" where
  \<comment> \<open>the block \<open># Additional recommendations based on performance\<close>, to the end\<close>
  "additional_recommendations avg_marks attendance_percentage insights =
     (let i1 = (if num_val avg_marks < 75 then
                  insights\<lparr>recommendations := recommendations insights @
                    [''Consider additional tutoring or remedial classes'',
                     ''Implement regular progress monitoring'']\<rparr>
                else insights);
          i2 = (if attendance_percentage < 80 then
                  i1\<lparr>recommendations := recommendations i1 @
                    [''Develop attendance improvement plan'']\<rparr>
                else i1)
      in if recommendations i2 = [] then
           i2\<lparr>recommendations := recommendations i2 @
             [''Continue current academic support strategies'',
              ''Encourage participation in advanced learning opportunities'']\<rparr>
         else i2)"

definition generate_ai_insights ::
  "(pynum \<Rightarrow> string) \<Rightarrow> student_row \<Rightarrow> (string, int) dict \<Rightarrow> (string, string) dict
     \<Rightarrow> string list \<Rightarrow> pynum \<Rightarrow> real \<Rightarrow> insights" where
  "generate_ai_insights format_num student marks grades attendance avg_marks
     attendance_percentage =
     (let insights = \<lparr>performance_level = [], strengths = [], weaknesses = [],
                      recommendations = [], trend_analysis = [], attendance_impact = [],
                      overall_assessment = []\<rparr>
      in additional_recommendations avg_marks attendance_percentage
           (attendance_impact_analysis attendance_percentage
              (subject_analysis marks
                 (performance_level_analysis format_num student avg_marks insights))))"

section \<open>Specification-side definitions and example data\<close>

text \<open>
  The definitions of this section are not translations of code. The tables restate
  the wording of the specification, to be compared with the code; the views name what
  the code reads from or writes to a table; the example values are the inputs at which
  the theorems below are instantiated.
\<close>

definition performance_level_table :: "real \<Rightarrow> string" where
  \<comment> \<open>the five performance levels, each with both of its bounds\<close>
  "performance_level_table avg =
     (if avg \<ge> 90 then ''Excellent''
      else if 80 \<le> avg \<and> avg < 90 then ''Good''
      else if 70 \<le> avg \<and> avg < 80 then ''Average''
      else if 60 \<le> avg \<and> avg < 70 then ''Below Average''
      else ''Needs Improvement'')"

definition demo_student :: student_row where
  "demo_student =
     \<lparr>s_id = 1, s_name = ''Asha'', s_age = 14, s_class = ''9'', s_section = ''A'',
      s_face_data = None, s_created_at = ''2025-01-01T00:00:00'',
      s_updated_at = ''2025-01-01T00:00:00''\<rparr>"

definition attendance_count :: "tables \<Rightarrow> int \<Rightarrow> nat" where
  \<comment> \<open>the number of attendance records of a student\<close>
  "attendance_count t student_id =
     length (filter (\<lambda>a. a_student_id a = student_id) (attendance_table t))"


definition attendance_entry_of :: "tables \<Rightarrow> student_row \<Rightarrow> attendance_entry" where
  \<comment> \<open>the entry of \<open>attendance_report\<close> for a student, from the table\<close>
  "attendance_entry_of t student =
     \<lparr>ae_student = student,
      ae_attendance_days = attendance_count t (s_id student),
      ae_attendance_percentage = py_round2 (real (attendance_count t (s_id student)) / 30 * 100),
      ae_has_face_data = truthy_str (s_face_data student)\<rparr>"

text \<open>
  Example data: a class with one student who has an attendance record for each of the
  31 days of March, and a world in which no remote call fails.
\<close>

definition demo_days :: "string list" where
  "demo_days =
     [''01'', ''02'', ''03'', ''04'', ''05'', ''06'', ''07'', ''08'', ''09'', ''10'',
      ''11'', ''12'', ''13'', ''14'', ''15'', ''16'', ''17'', ''18'', ''19'', ''20'',
      ''21'', ''22'', ''23'', ''24'', ''25'', ''26'', ''27'', ''28'', ''29'', ''30'', ''31'']"

definition demo_attendance :: "attendance_row list" where
  "demo_attendance =
     map (\<lambda>day. \<lparr>a_student_id = 1, a_date = ''2025-03-'' @ day, a_face_data = None,
                  a_created_at = ''2025-03-'' @ day @ ''T08:00:00'',
                  a_updated_at = ''2025-03-'' @ day @ ''T08:00:00''\<rparr>) demo_days"

definition demo_tables :: tables where
  "demo_tables =
     \<lparr>users_table = [], students_table = [demo_student], teachers_table = [],
      marks_table = [], grades_table = [], attendance_table = demo_attendance\<rparr>"

definition world_of :: "tables \<Rightarrow> world" where
  "world_of t =
     \<lparr>db = t, faults = [], stdout = [], flashes = [],
      timeline = (\<lambda>n. ''2025-04-01T09:00:00''), reads = 0, today = ''2025-04-01''\<rparr>"

definition teacher_session :: session where
  "teacher_session = [''username'' \<mapsto> ''mrs_rao'', ''role'' \<mapsto> ''teacher'']"

definition get_request :: request where
  "get_request = \<lparr>req_method = GET, req_form = Map.empty, req_args = Map.empty\<rparr>"

text \<open>
  A school with one student, two teachers, and a user for the student whose password
  hash has the format that \<open>generate_password_hash\<close> of \<open>werkzeug\<close> writes, as
  \<open>create_user\<close> stores it; the teacher's hash has the \<open>bcrypt\<close> format.
\<close>

definition school_tables :: tables where
  "school_tables =
     \<lparr>users_table =
        [\<lparr>u_username = ''asha'', u_password_hash = ''pbkdf2:sha256:600000$salt$0123abcd'',
          u_role = ''student'', u_created_at = ''2025-01-01T00:00:00'', u_student_id = Some 1\<rparr>,
         \<lparr>u_username = ''mrs_rao'', u_password_hash = ''$2b$12$abcdefghijklmnopqrstuv'',
          u_role = ''teacher'', u_created_at = ''2025-01-01T00:00:00'', u_student_id = None\<rparr>],
      students_table = [demo_student],
      teachers_table =
        [\<lparr>t_id = 1, t_name = ''Rao'', t_subject = ''Maths'',
          t_created_at = ''2025-01-01T00:00:00'', t_updated_at = ''2025-01-01T00:00:00''\<rparr>,
         \<lparr>t_id = 2, t_name = ''Sen'', t_subject = ''Physics'',
          t_created_at = ''2025-01-01T00:00:00'', t_updated_at = ''2025-01-01T00:00:00''\<rparr>],
      marks_table =
        [\<lparr>m_student_id = 1, m_subject = ''Maths'', m_mark = 91,
          m_created_at = ''2025-02-01T00:00:00''\<rparr>,
         \<lparr>m_student_id = 1, m_subject = ''Physics'', m_mark = 78,
          m_created_at = ''2025-02-01T00:00:00''\<rparr>],
      grades_table =
        [\<lparr>g_student_id = 1, g_subject = ''Maths'', g_grade = ''A'',
          g_created_at = ''2025-02-01T00:00:00''\<rparr>,
         \<lparr>g_student_id = 1, g_subject = ''Physics'', g_grade = ''C'',
          g_created_at = ''2025-02-01T00:00:00''\<rparr>],
      attendance_table =
        [\<lparr>a_student_id = 1, a_date = ''2025-03-03'', a_face_data = None,
          a_created_at = ''2025-03-03T08:00:00'', a_updated_at = ''2025-03-03T08:00:00''\<rparr>]\<rparr>"

definition checkpw_stub :: "string \<Rightarrow> string \<Rightarrow> exn + bool" where
  \<comment> \<open>a stand-in for \<open>bcrypt.checkpw\<close> that knows one password\<close>
  "checkpw_stub password hash = Inr (hash = ''$2b$12$abcdefghijklmnopqrstuv'' \<and> password = ''chalk'')"

text \<open>
  The attendance table holds at most one record for a student and a date;
  \<open>attendance_for\<close> are the records of a student on a date, \<open>attendance_update\<close> is
  the change that \<open>mark_attendance\<close> makes to a record that exists and
  \<open>attendance_new\<close> the record that it inserts.
\<close>

definition attendance_unique :: "tables \<Rightarrow> bool" where
  "attendance_unique t = distinct (map (\<lambda>a. (a_student_id a, a_date a)) (attendance_table t))"

definition attendance_update ::
  "int \<Rightarrow> string \<Rightarrow> string option \<Rightarrow> string \<Rightarrow> attendance_row \<Rightarrow> attendance_row" where
  "attendance_update student_id date_str face_data now a =
     (if a_student_id a = student_id \<and> a_date a = date_str
      then a\<lparr>a_face_data := face_data, a_updated_at := now\<rparr> else a)"

definition attendance_new ::
  "int \<Rightarrow> string \<Rightarrow> string option \<Rightarrow> string \<Rightarrow> string \<Rightarrow> attendance_row" where
  "attendance_new student_id date_str face_data created updated =
     \<lparr>a_student_id = student_id, a_date = date_str, a_face_data = face_data,
      a_created_at = created, a_updated_at = updated\<rparr>"

definition attendance_for :: "int \<Rightarrow> string \<Rightarrow> tables \<Rightarrow> attendance_row list" where
  "attendance_for student_id date_str t =
     filter (\<lambda>a. a_student_id a = student_id \<and> a_date a = date_str) (attendance_table t)"

text \<open>A student's session and a posted image of 132 characters.\<close>

definition student_session :: session where
  "student_session = [''username'' \<mapsto> ''asha'', ''role'' \<mapsto> ''student'']"

definition face_image :: string where
  "face_image = ''data:image/jpeg;base64,/9j/4AAQSkZJRgABAQAAAQABAAD/'' @ replicate 80 (CHR ''A'')"

definition face_request :: request where
  "face_request =
     \<lparr>req_method = POST, req_form = [''face_data'' \<mapsto> face_image], req_args = Map.empty\<rparr>"

text \<open>
  \<open>stored_marks\<close> and \<open>stored_grades\<close> are the dictionaries that
  \<open>get_student_marks\<close> and \<open>get_student_grades\<close> build from the rows of a student.
  \<open>parsed_mark\<close> is the integer that \<open>enter_marks\<close> reads from the form for a student
  and a subject, if the field is present, not empty and parses; \<open>submitted_marks\<close> and
  \<open>submitted_grades\<close> are the two dictionaries that its inner loop builds for a student.
\<close>

definition stored_marks :: "tables \<Rightarrow> int \<Rightarrow> (string, int) dict" where
  "stored_marks t student_id =
     fold (\<lambda>record marks. AList.update (m_subject record) (m_mark record) marks)
       (filter (\<lambda>m. m_student_id m = student_id) (marks_table t)) []"

definition stored_grades :: "tables \<Rightarrow> int \<Rightarrow> (string, string) dict" where
  "stored_grades t student_id =
     fold (\<lambda>record grades. AList.update (g_subject record) (g_grade record) grades)
       (filter (\<lambda>g. g_student_id g = student_id) (grades_table t)) []"

definition parsed_mark ::
  "(string \<Rightarrow> int option) \<Rightarrow> (string \<Rightarrow> string option) \<Rightarrow> int \<Rightarrow> string \<Rightarrow> int option" where
  "parsed_mark to_int form student_id subject =
     (case form (mark_key student_id subject) of
        None \<Rightarrow> None
      | Some mark_val \<Rightarrow> if mark_val \<noteq> [] then to_int mark_val else None)"

definition submitted_marks ::
  "(string \<Rightarrow> int option) \<Rightarrow> (string \<Rightarrow> string option) \<Rightarrow> string list \<Rightarrow> int
     \<Rightarrow> (string, int) dict" where
  "submitted_marks to_int form subjects student_id =
     fst (enter_marks_subjects to_int form student_id subjects ([], []))"

definition submitted_grades ::
  "(string \<Rightarrow> int option) \<Rightarrow> (string \<Rightarrow> string option) \<Rightarrow> string list \<Rightarrow> int
     \<Rightarrow> (string, string) dict" where
  "submitted_grades to_int form subjects student_id =
     snd (enter_marks_subjects to_int form student_id subjects ([], []))"

text \<open>The threshold table of the data model, each letter with both of its bounds.\<close>

definition grade_table :: "int \<Rightarrow> string" where
  "grade_table m =
     (if m \<ge> 90 then ''A''
      else if 80 \<le> m \<and> m < 90 then ''B''
      else if 70 \<le> m \<and> m < 80 then ''C''
      else if 60 \<le> m \<and> m < 70 then ''D''
      else if 40 \<le> m \<and> m < 60 then ''E''
      else ''F'')"

text \<open>
  For the examples, \<open>int()\<close> on strings of decimal digits, and a form that gives the
  student a mark in Maths and leaves the Physics field empty.
\<close>

definition decimal_int :: "string \<Rightarrow> int option" where
  "decimal_int s =
     (if s \<noteq> [] \<and> list_all (\<lambda>c. CHR ''0'' \<le> c \<and> c \<le> CHR ''9'') s
      then Some (foldl (\<lambda>acc c. 10 * acc + (of_char c - 48)) 0 s) else None)"

definition marks_request :: request where
  "marks_request =
     \<lparr>req_method = POST,
      req_form = [''marks_1_Maths'' \<mapsto> ''95'', ''marks_1_Physics'' \<mapsto> ''''],
      req_args = Map.empty\<rparr>"

text \<open>
  The statistics of the report in the words of the specification, on a dictionary seen
  as a map: the sum of the values divided by their number (the division being Python's),
  or the integer 0 for the empty map; and the number of subjects whose grade is a given
  letter.
\<close>

definition average_of :: "(int \<Rightarrow> int \<Rightarrow> real) \<Rightarrow> (string \<Rightarrow> int option) \<Rightarrow> pynum" where
  "average_of truediv m =
     (if dom m = {} then PyInt 0
      else PyFloat (truediv (\<Sum>subject \<in> dom m. the (m subject)) (int (card (dom m)))))"

definition count_grade :: "(string \<Rightarrow> string option) \<Rightarrow> string \<Rightarrow> nat" where
  "count_grade m grade = card {subject. m subject = Some grade}"

text \<open>
  Marks and grades for the examples of the report. The average of the two marks, 84.5,
  is a \<open>float\<close>: there Python's division returns the quotient itself, and rounding it
  to two decimals leaves it as it is.
\<close>

definition exact_div :: "int \<Rightarrow> int \<Rightarrow> real" where
  \<comment> \<open>Python's \<open>a / b\<close> where the quotient is a \<open>float\<close>\<close>
  "exact_div a b = real_of_int a / real_of_int b"

definition report_marks :: "(string, int) dict" where
  "report_marks = [(''Maths'', 91), (''Physics'', 78)]"

definition report_grades :: "(string, string) dict" where
  "report_grades = [(''Maths'', ''A''), (''Physics'', ''C''), (''Chemistry'', ''A'')]"

section \<open>Verified properties\<close>

subsection \<open>The performance level of \<open>generate_ai_insights\<close>\<close>

lemma performance_level_analysis_level:
  "performance_level (performance_level_analysis format_num student avg_marks insights) =
     performance_level_table (num_val avg_marks)"
  by (simp add: performance_level_analysis_def performance_level_table_def)

lemma subject_analysis_level:
  "performance_level (subject_analysis marks insights) = performance_level insights"
  by (simp add: subject_analysis_def Let_def split: list.split)

lemma attendance_impact_analysis_level:
  "performance_level (attendance_impact_analysis attendance_percentage insights) =
     performance_level insights"
  by (simp add: attendance_impact_analysis_def)

lemma additional_recommendations_level:
  "performance_level (additional_recommendations avg_marks attendance_percentage insights) =
     performance_level insights"
  by (simp add: additional_recommendations_def Let_def)

lemma performance_level_table_cases:
  "performance_level_table avg \<in>
     {''Excellent'', ''Good'', ''Average'', ''Below Average'', ''Needs Improvement''}"
  by (simp add: performance_level_table_def)

text \<open>
  Claim C7. In \<open>generate_ai_insights\<close> the field \<open>performance_level\<close> depends on
  \<open>avg_marks\<close> alone, whatever the student, the marks, the grades, the attendance and
  the attendance percentage are, and none of the later blocks overwrites it. It is
  \<open>Excellent\<close> from 90, \<open>Good\<close> from 80 and below 90, \<open>Average\<close> from 70 and below 80,
  \<open>Below Average\<close> from 60 and below 70, and \<open>Needs Improvement\<close> otherwise; so it is
  always one of these five strings.
\<close>

theorem generate_ai_insights_performance_level:
  "performance_level
     (generate_ai_insights format_num student marks grades attendance avg_marks
        attendance_percentage) = performance_level_table (num_val avg_marks)
   \<and> performance_level
       (generate_ai_insights format_num student marks grades attendance avg_marks
          attendance_percentage) \<in>
       {''Excellent'', ''Good'', ''Average'', ''Below Average'', ''Needs Improvement''}"
  unfolding generate_ai_insights_def Let_def additional_recommendations_level
    attendance_impact_analysis_level subject_analysis_level performance_level_analysis_level
  using performance_level_table_cases [of "num_val avg_marks"] by simp

theorem generate_ai_insights_performance_level_witness:
  "performance_level
     (generate_ai_insights (\<lambda>n. ''84.5'') demo_student
        [(''Maths'', 89), (''Physics'', 80)] [(''Maths'', ''B''), (''Physics'', ''B'')]
        [''2025-03-01''] (PyFloat (169 / 2)) (10 / 3)) = ''Good''"
  using generate_ai_insights_performance_level
    [of "\<lambda>n. ''84.5''" demo_student "[(''Maths'', 89), (''Physics'', 80)]"
        "[(''Maths'', ''B''), (''Physics'', ''B'')]" "[''2025-03-01'']" "PyFloat (169 / 2)"
        "10 / 3"]
  by (simp add: performance_level_table_def)

subsection \<open>Remote calls that do not fail\<close>

lemma execute_reliable:
  "reliable w \<Longrightarrow>
   execute request w =
     (Inr (fst (request (db w))), w\<lparr>db := snd (request (db w)), faults := tl (faults w)\<rparr>)"
  by (cases "faults w") (auto simp: execute_def reliable_def split: outcome.splits)

lemma reliable_tl [simp]:
  "reliable w \<Longrightarrow> reliable (w\<lparr>faults := tl (faults w)\<rparr>)"
  by (cases "faults w") (auto simp: reliable_def)

lemma reliable_db [simp]: "reliable (w\<lparr>db := t\<rparr>) = reliable w"
  by (simp add: reliable_def)

lemma reliable_reads [simp]: "reliable (w\<lparr>reads := n\<rparr>) = reliable w"
  by (simp add: reliable_def)

lemma reliable_print [simp]: "reliable (print l w) = reliable w"
  by (simp add: reliable_def print_def)

lemma reliable_flash [simp]: "reliable (flash m c w) = reliable w"
  by (simp add: reliable_def flash_def)

lemma get_student_reliable:
  "reliable w \<Longrightarrow>
   get_student sid w =
     (first_row (filter (\<lambda>s. s_id s = sid) (students_table (db w))),
      w\<lparr>db := db w, faults := tl (faults w)\<rparr>)"
  by (simp add: get_student_def execute_reliable)

lemma get_student_attendance_reliable:
  "reliable w \<Longrightarrow>
   get_student_attendance sid w =
     (map a_date (rev (sort_key a_date (filter (\<lambda>a. a_student_id a = sid)
         (attendance_table (db w))))),
      w\<lparr>db := db w, faults := tl (faults w)\<rparr>)"
  by (simp add: get_student_attendance_def execute_reliable)

subsection \<open>The attendance percentage\<close>

lemma py_round2_lower: "of_int \<lfloor>x * 100\<rfloor> / 100 \<le> py_round2 x"
  by (simp add: py_round2_def round_half_even_def Let_def divide_right_mono)

lemma percentage_exceeds:
  assumes "30 < n"
  shows "100 < py_round2 (real n / 30 * 100)"
proof -
  define x where "x = real n / 30 * 100"
  have "31 \<le> real n" using assms by simp
  then have "(10333 :: real) \<le> x * 100" by (simp add: x_def)
  then have "(10333 :: int) \<le> \<lfloor>x * 100\<rfloor>" by linarith
  then have "(10333 :: real) \<le> of_int \<lfloor>x * 100\<rfloor>" by linarith
  then have "(10333 :: real) / 100 \<le> of_int \<lfloor>x * 100\<rfloor> / 100"
    by (rule divide_right_mono) simp
  also have "\<dots> \<le> py_round2 x" by (rule py_round2_lower)
  finally have "(10333 :: real) / 100 \<le> py_round2 x" .
  then have "100 < py_round2 x" by linarith
  then show ?thesis by (simp only: x_def)
qed

lemma get_all_students_reliable:
  "reliable w \<Longrightarrow>
   get_all_students w =
     (sort_key s_name (students_table (db w)), w\<lparr>db := db w, faults := tl (faults w)\<rparr>)"
  by (simp add: get_all_students_def execute_reliable)

lemma execute_read_reliable:
  "reliable w \<Longrightarrow> reliable (snd (execute (\<lambda>t. (f t, t)) w))"
  "reliable w \<Longrightarrow> db (snd (execute (\<lambda>t. (f t, t)) w)) = db w"
  by (simp_all add: execute_reliable)

lemma get_student_marks_keeps:
  "reliable w \<Longrightarrow> reliable (snd (get_student_marks sid w))"
  "reliable w \<Longrightarrow> db (snd (get_student_marks sid w)) = db w"
  by (simp_all add: get_student_marks_def execute_reliable)

lemma get_student_grades_keeps:
  "reliable w \<Longrightarrow> reliable (snd (get_student_grades sid w))"
  "reliable w \<Longrightarrow> db (snd (get_student_grades sid w)) = db w"
  by (simp_all add: get_student_grades_def execute_reliable)

lemma get_student_attendance_length:
  "reliable w \<Longrightarrow> length (fst (get_student_attendance sid w)) = attendance_count (db w) sid"
  by (simp add: get_student_attendance_reliable attendance_count_def)

lemma get_student_attendance_keeps:
  "reliable w \<Longrightarrow> reliable (snd (get_student_attendance sid w))"
  "reliable w \<Longrightarrow> db (snd (get_student_attendance sid w)) = db w"
  by (simp_all add: get_student_attendance_reliable)

lemma student_report_found:
  assumes "reliable w"
    and "session ''role'' \<in> {Some ''principal'', Some ''teacher''}"
    and "first_row (filter (\<lambda>s. s_id s = sid) (students_table (db w))) = Some student"
  shows "\<exists>marks grades attendance w'.
           student_report truediv roundf session sid w =
             (Render ''student_report.html''
                (student_report_data truediv roundf student marks grades attendance, session ''username''), w')
           \<and> length attendance = attendance_count (db w) sid"
proof -
  let ?w1 = "snd (get_student sid w)"
  let ?w2 = "snd (get_student_marks sid ?w1)"
  let ?w3 = "snd (get_student_grades sid ?w2)"
  have r1: "reliable ?w1" and d1: "db ?w1 = db w"
    using assms(1) by (simp_all add: get_student_reliable)
  have r2: "reliable ?w2" and d2: "db ?w2 = db w"
    using r1 d1 by (simp_all add: get_student_marks_keeps)
  have r3: "reliable ?w3" and d3: "db ?w3 = db w"
    using r2 d2 by (simp_all add: get_student_grades_keeps)
  have len: "length (fst (get_student_attendance sid ?w3)) = attendance_count (db w) sid"
    using r3 d3 by (simp add: get_student_attendance_length)
  have gs: "fst (get_student sid w) = Some student"
    using assms(1,3) by (simp add: get_student_reliable)
  have "student_report truediv roundf session sid w =
          (Render ''student_report.html''
             (student_report_data truediv roundf student (fst (get_student_marks sid ?w1))
                (fst (get_student_grades sid ?w2)) (fst (get_student_attendance sid ?w3)),
              session ''username''), snd (get_student_attendance sid ?w3))"
    using assms(2) gs by (auto simp: student_report_def case_prod_beta)
  with len show ?thesis by blast
qed

lemma student_report_data_percentage:
  "rd_attendance_percentage (student_report_data truediv roundf student marks grades attendance) =
     py_round2 (real (length attendance) / 30 * 100)"
  by (simp add: student_report_data_def student_report_attendance_percentage_def)

lemma attendance_report_data_reliable:
  "reliable w \<Longrightarrow>
   fst (attendance_report_data sts w) = map (attendance_entry_of (db w)) sts
   \<and> reliable (snd (attendance_report_data sts w))
   \<and> db (snd (attendance_report_data sts w)) = db w"
proof (induction sts arbitrary: w)
  case Nil
  then show ?case by simp
next
  case (Cons s sts)
  let ?w1 = "snd (get_student_attendance (s_id s) w)"
  have r1: "reliable ?w1" and d1: "db ?w1 = db w"
    using Cons.prems by (simp_all add: get_student_attendance_keeps)
  have len: "length (fst (get_student_attendance (s_id s) w)) = attendance_count (db w) (s_id s)"
    using Cons.prems by (rule get_student_attendance_length)
  from Cons.IH [OF r1] d1 len show ?case
    by (simp add: attendance_entry_of_def Let_def case_prod_beta)
qed

lemma set_sort_reverse [simp]: "set (sort_reverse f xs) = set xs"
  by (simp add: sort_reverse_def)

lemma attendance_entry_of_student: "ae_student (attendance_entry_of t s) = s"
  by (simp add: attendance_entry_of_def)

lemma attendance_entry_of_percentage:
  "ae_attendance_percentage (attendance_entry_of t s) =
     py_round2 (real (attendance_count t (s_id s)) / 30 * 100)"
  by (simp add: attendance_entry_of_def)

lemma attendance_report_reliable:
  assumes "reliable w" and "session ''role'' \<in> {Some ''principal'', Some ''teacher''}"
  shows "\<exists>data cs ss u w'.
           attendance_report session request w =
             (Render ''attendance_report.html''
                (data, cs, ss, req_args request ''class'', req_args request ''section'', u), w')
           \<and> set data = attendance_entry_of (db w) `
                 {s \<in> set (students_table (db w)).
                    (truthy_str (req_args request ''class'') \<longrightarrow>
                       Some (s_class s) = req_args request ''class'') \<and>
                    (truthy_str (req_args request ''section'') \<longrightarrow>
                       Some (s_section s) = req_args request ''section'')}"
proof -
  let ?w1 = "snd (get_all_students w)"
  have r1: "reliable ?w1" and d1: "db ?w1 = db w"
    and s1: "fst (get_all_students w) = sort_key s_name (students_table (db w))"
    using assms(1) by (simp_all add: get_all_students_reliable)
  note ard = attendance_report_data_reliable [OF r1, unfolded d1]
  show ?thesis
    using assms(2) s1 ard
    by (auto simp: attendance_report_def case_prod_beta Let_def)
qed

text \<open>
  Claim C10. When the remote calls succeed, the attendance percentage shown by
  \<open>student_report\<close> and by every entry of \<open>attendance_report\<close> is the number of the
  student's attendance records divided by 30, times 100 (rounded to two decimals for
  display), whatever period the records cover; with more than 30 records it is above
  100, so nothing clamps it. The entries of \<open>attendance_report\<close> are those of the
  students that pass the class and section filters of the request.
\<close>

theorem attendance_percentage_unclamped:
  assumes "reliable w" and "session ''role'' \<in> {Some ''principal'', Some ''teacher''}"
  shows
    "(\<forall>student.
        first_row (filter (\<lambda>s. s_id s = sid) (students_table (db w))) = Some student \<longrightarrow>
        (\<exists>rd u w'.
           student_report truediv roundf session sid w = (Render ''student_report.html'' (rd, u), w')
           \<and> rd_attendance_percentage rd =
               py_round2 (real (attendance_count (db w) sid) / 30 * 100)
           \<and> (30 < attendance_count (db w) sid \<longrightarrow> 100 < rd_attendance_percentage rd)))
     \<and> (\<exists>data cs ss c s u w'.
           attendance_report session request w =
             (Render ''attendance_report.html'' (data, cs, ss, c, s, u), w')
           \<and> ae_student ` set data =
               {s \<in> set (students_table (db w)).
                  (truthy_str (req_args request ''class'') \<longrightarrow>
                     Some (s_class s) = req_args request ''class'') \<and>
                  (truthy_str (req_args request ''section'') \<longrightarrow>
                     Some (s_section s) = req_args request ''section'')}
           \<and> (\<forall>e \<in> set data.
                 ae_attendance_percentage e =
                   py_round2 (real (attendance_count (db w) (s_id (ae_student e))) / 30 * 100)
                 \<and> (30 < attendance_count (db w) (s_id (ae_student e)) \<longrightarrow>
                      100 < ae_attendance_percentage e)))"
proof (intro conjI allI impI)
  fix student
  assume "first_row (filter (\<lambda>s. s_id s = sid) (students_table (db w))) = Some student"
  from student_report_found
         [where w = w and session = session and sid = sid and student = student
            and truediv = truediv and roundf = roundf, OF assms this]
  obtain marks grades attendance w' where
    sr: "student_report truediv roundf session sid w =
           (Render ''student_report.html''
              (student_report_data truediv roundf student marks grades attendance, session ''username''), w')"
    and len: "length attendance = attendance_count (db w) sid"
    by blast
  let ?rd = "student_report_data truediv roundf student marks grades attendance"
  have p: "rd_attendance_percentage ?rd =
             py_round2 (real (attendance_count (db w) sid) / 30 * 100)"
    by (simp only: student_report_data_percentage len)
  have "30 < attendance_count (db w) sid \<longrightarrow> 100 < rd_attendance_percentage ?rd"
    unfolding p by (blast intro: percentage_exceeds)
  with sr p
  show "\<exists>rd u w'.
          student_report truediv roundf session sid w = (Render ''student_report.html'' (rd, u), w')
          \<and> rd_attendance_percentage rd =
              py_round2 (real (attendance_count (db w) sid) / 30 * 100)
          \<and> (30 < attendance_count (db w) sid \<longrightarrow> 100 < rd_attendance_percentage rd)"
    by blast
next
  from attendance_report_reliable [where w = w and session = session and request = request, OF assms]
  obtain data cs ss u w' where
    ar: "attendance_report session request w =
           (Render ''attendance_report.html''
              (data, cs, ss, req_args request ''class'', req_args request ''section'', u), w')"
    and sd: "set data = attendance_entry_of (db w) `
               {s \<in> set (students_table (db w)).
                  (truthy_str (req_args request ''class'') \<longrightarrow>
                     Some (s_class s) = req_args request ''class'') \<and>
                  (truthy_str (req_args request ''section'') \<longrightarrow>
                     Some (s_section s) = req_args request ''section'')}"
    by blast
  have st: "ae_student ` set data =
              {s \<in> set (students_table (db w)).
                 (truthy_str (req_args request ''class'') \<longrightarrow>
                    Some (s_class s) = req_args request ''class'') \<and>
                 (truthy_str (req_args request ''section'') \<longrightarrow>
                    Some (s_section s) = req_args request ''section'')}"
    unfolding sd by (force simp: attendance_entry_of_def)
  have pe: "\<forall>e \<in> set data.
              ae_attendance_percentage e =
                py_round2 (real (attendance_count (db w) (s_id (ae_student e))) / 30 * 100)
              \<and> (30 < attendance_count (db w) (s_id (ae_student e)) \<longrightarrow>
                   100 < ae_attendance_percentage e)"
  proof
    fix e
    assume "e \<in> set data"
    then obtain s where e: "e = attendance_entry_of (db w) s"
      unfolding sd by blast
    show "ae_attendance_percentage e =
            py_round2 (real (attendance_count (db w) (s_id (ae_student e))) / 30 * 100)
          \<and> (30 < attendance_count (db w) (s_id (ae_student e)) \<longrightarrow>
               100 < ae_attendance_percentage e)"
      unfolding e attendance_entry_of_student attendance_entry_of_percentage
      by (blast intro: percentage_exceeds)
  qed
  from ar st pe
  show "\<exists>data cs ss c s u w'.
          attendance_report session request w =
            (Render ''attendance_report.html'' (data, cs, ss, c, s, u), w')
          \<and> ae_student ` set data =
              {s \<in> set (students_table (db w)).
                 (truthy_str (req_args request ''class'') \<longrightarrow>
                    Some (s_class s) = req_args request ''class'') \<and>
                 (truthy_str (req_args request ''section'') \<longrightarrow>
                    Some (s_section s) = req_args request ''section'')}
          \<and> (\<forall>e \<in> set data.
                ae_attendance_percentage e =
                  py_round2 (real (attendance_count (db w) (s_id (ae_student e))) / 30 * 100)
                \<and> (30 < attendance_count (db w) (s_id (ae_student e)) \<longrightarrow>
                     100 < ae_attendance_percentage e))"
    by blast
qed

lemma demo_count: "attendance_count demo_tables 1 = 31"
  by (simp add: attendance_count_def demo_tables_def demo_attendance_def demo_days_def)

theorem attendance_percentage_unclamped_witness:
  "reliable (world_of demo_tables)
   \<and> teacher_session ''role'' \<in> {Some ''principal'', Some ''teacher''}
   \<and> first_row (filter (\<lambda>s. s_id s = 1) (students_table (db (world_of demo_tables)))) =
       Some demo_student
   \<and> 30 < attendance_count (db (world_of demo_tables)) 1
   \<and> (\<exists>rd u w'.
         student_report exact_div py_round2 teacher_session 1 (world_of demo_tables) =
           (Render ''student_report.html'' (rd, u), w')
         \<and> 100 < rd_attendance_percentage rd)
   \<and> (\<exists>data cs ss c s u w'.
         attendance_report teacher_session get_request (world_of demo_tables) =
           (Render ''attendance_report.html'' (data, cs, ss, c, s, u), w')
         \<and> (\<exists>e \<in> set data. ae_student e = demo_student \<and> 100 < ae_attendance_percentage e))"
proof -
  have r: "reliable (world_of demo_tables)"
    by (simp add: reliable_def world_of_def)
  have s: "teacher_session ''role'' \<in> {Some ''principal'', Some ''teacher''}"
    by (simp add: teacher_session_def)
  have d: "db (world_of demo_tables) = demo_tables"
    by (simp add: world_of_def)
  have f: "first_row (filter (\<lambda>s. s_id s = 1) (students_table (db (world_of demo_tables)))) =
             Some demo_student"
    unfolding d by (simp add: demo_tables_def demo_student_def first_row_def)
  have c: "30 < attendance_count (db (world_of demo_tables)) 1"
    by (simp add: d demo_count)
  have a: "{s \<in> set (students_table (db (world_of demo_tables))).
             (truthy_str (req_args get_request ''class'') \<longrightarrow>
                Some (s_class s) = req_args get_request ''class'') \<and>
             (truthy_str (req_args get_request ''section'') \<longrightarrow>
                Some (s_section s) = req_args get_request ''section'')} = {demo_student}"
    unfolding d by (auto simp: demo_tables_def get_request_def truthy_str_def)
  have i: "s_id demo_student = 1" by (simp add: demo_student_def)
  from attendance_percentage_unclamped
         [where w = "world_of demo_tables" and session = teacher_session and sid = 1
            and request = get_request and truediv = exact_div and roundf = py_round2, OF r s] f c
  have 1: "\<exists>rd u w'.
         student_report exact_div py_round2 teacher_session 1 (world_of demo_tables) =
           (Render ''student_report.html'' (rd, u), w')
         \<and> 100 < rd_attendance_percentage rd"
    by blast
  from attendance_percentage_unclamped
         [where w = "world_of demo_tables" and session = teacher_session and sid = 1
            and request = get_request and truediv = exact_div and roundf = py_round2, OF r s, unfolded a]
  obtain data cs ss c' s' u w' where
    ar: "attendance_report teacher_session get_request (world_of demo_tables) =
           (Render ''attendance_report.html'' (data, cs, ss, c', s', u), w')"
    and st: "ae_student ` set data = {demo_student}"
    and pe: "\<forall>e \<in> set data.
               30 < attendance_count (db (world_of demo_tables)) (s_id (ae_student e)) \<longrightarrow>
               100 < ae_attendance_percentage e"
    by blast
  from st have "demo_student \<in> ae_student ` set data" by simp
  then obtain e where e: "e \<in> set data" "ae_student e = demo_student" by auto
  with pe c i have "100 < ae_attendance_percentage e" by auto
  with ar e have 2: "\<exists>data cs ss c s u w'.
         attendance_report teacher_session get_request (world_of demo_tables) =
           (Render ''attendance_report.html'' (data, cs, ss, c, s, u), w')
         \<and> (\<exists>e \<in> set data. ae_student e = demo_student \<and> 100 < ae_attendance_percentage e)"
    by blast
  from r s f c 1 2 show ?thesis by blast
qed

subsection \<open>What \<open>delete_student\<close> leaves alone\<close>

lemma delete_student_tables:
  "db (snd (delete_student sid w)) = db w
   \<or> db (snd (delete_student sid w)) =
       (db w)\<lparr>students_table := filter (\<lambda>s. s_id s \<noteq> sid) (students_table (db w))\<rparr>"
  by (simp add: delete_student_def execute_def print_def split: list.split outcome.split)

lemma delete_student_route_tables:
  "db (snd (delete_student_route session sid w)) = db w
   \<or> db (snd (delete_student_route session sid w)) =
       (db w)\<lparr>students_table := filter (\<lambda>s. s_id s \<noteq> sid) (students_table (db w))\<rparr>"
  using delete_student_tables [of sid w]
  by (auto simp: delete_student_route_def flash_def split: prod.split bool.split)

text \<open>
  Claim C6. \<open>delete_student\<close> issues its delete against the students table only:
  whatever the state and whether or not the remote call fails, the marks, grades,
  attendance, users and teachers tables are the same after the call as before, both for
  the database method and for the route handler that calls it. The students table is
  unchanged or has lost the rows with the given id. So the rows of the other tables that
  refer to the deleted student stay.
\<close>

theorem delete_student_frame:
  "(let t = db w; t' = db (snd (delete_student student_id w))
    in marks_table t' = marks_table t \<and> grades_table t' = grades_table t
       \<and> attendance_table t' = attendance_table t \<and> users_table t' = users_table t
       \<and> teachers_table t' = teachers_table t
       \<and> students_table t' \<in>
           {students_table t, filter (\<lambda>s. s_id s \<noteq> student_id) (students_table t)})
   \<and> (let t = db w; t' = db (snd (delete_student_route session student_id w))
      in marks_table t' = marks_table t \<and> grades_table t' = grades_table t
         \<and> attendance_table t' = attendance_table t \<and> users_table t' = users_table t
         \<and> teachers_table t' = teachers_table t
         \<and> students_table t' \<in>
             {students_table t, filter (\<lambda>s. s_id s \<noteq> student_id) (students_table t)})"
  using delete_student_tables [of student_id w]
    delete_student_route_tables [of session student_id w]
  by (auto simp: Let_def)

theorem delete_student_frame_witness:
  "(let t' = db (snd (delete_student_route teacher_session 1 (world_of school_tables)))
    in students_table t' = [] \<and> marks_table t' = marks_table school_tables
       \<and> map m_student_id (marks_table t') = [1, 1]
       \<and> map g_student_id (grades_table t') = [1, 1]
       \<and> map a_student_id (attendance_table t') = [1]
       \<and> map u_student_id (users_table t') = [Some 1, None])"
proof -
  have s: "students_table
             (db (snd (delete_student_route teacher_session 1 (world_of school_tables)))) = []"
    by (simp add: delete_student_route_def delete_student_def execute_def world_of_def
        teacher_session_def school_tables_def demo_student_def flash_def)
  have d: "db (world_of school_tables) = school_tables"
    by (simp add: world_of_def)
  from delete_student_frame [of "world_of school_tables" 1 teacher_session, unfolded d] s
  show ?thesis
    by (simp add: Let_def school_tables_def)
qed

subsection \<open>\<open>verify_user\<close> and the unbound name\<close>

lemma get_user_reliable:
  "reliable w \<Longrightarrow>
   fst (get_user username w) =
     first_row (filter (\<lambda>u. u_username u = username) (users_table (db w)))"
  by (simp add: get_user_def execute_reliable)

lemma verify_user_found:
  assumes "fst (get_user username w) = Some user"
  shows "fst (verify_user checkpw username password w) =
           (if startswith (u_password_hash user) ''$2b$'' then
              (case checkpw password (u_password_hash user) of
                 Inl e \<Rightarrow> Inl e
               | Inr ok \<Rightarrow> Inr (if ok then Some user else None))
            else Inl (NameError ''check_password_hash''))"
  using assms
  by (cases "get_user username w")
     (simp add: verify_user_def split: sum.split bool.split)

text \<open>
  Claim C8. For a stored user (the row that the lookup by username returns) whose
  password hash does not start with \<open>$2b$\<close>, \<open>verify_user\<close> raises \<open>NameError\<close> for the
  name \<open>check_password_hash\<close>, whatever the password; and when \<open>verify_user\<close> returns
  without an error for a stored user, the hash of that user has the \<open>bcrypt\<close> prefix.
\<close>

theorem verify_user_name_error:
  assumes "reliable w"
    and "first_row (filter (\<lambda>u. u_username u = username) (users_table (db w))) = Some user"
  shows "(\<not> startswith (u_password_hash user) ''$2b$'' \<longrightarrow>
            fst (verify_user checkpw username password w) =
              Inl (NameError ''check_password_hash''))
         \<and> ((\<exists>result. fst (verify_user checkpw username password w) = Inr result) \<longrightarrow>
              startswith (u_password_hash user) ''$2b$'')"
proof -
  have "fst (get_user username w) = Some user"
    using assms by (simp add: get_user_reliable)
  from verify_user_found [OF this, of checkpw password] show ?thesis
    by (auto split: if_splits)
qed

theorem verify_user_name_error_witness:
  "reliable (world_of school_tables)
   \<and> first_row (filter (\<lambda>u. u_username u = ''asha'')
        (users_table (db (world_of school_tables)))) = Some (hd (users_table school_tables))
   \<and> \<not> startswith (u_password_hash (hd (users_table school_tables))) ''$2b$''
   \<and> fst (verify_user checkpw_stub ''asha'' ''secret'' (world_of school_tables)) =
       Inl (NameError ''check_password_hash'')"
proof -
  have r: "reliable (world_of school_tables)"
    by (simp add: reliable_def world_of_def)
  have f: "first_row (filter (\<lambda>u. u_username u = ''asha'')
        (users_table (db (world_of school_tables)))) = Some (hd (users_table school_tables))"
    by (simp add: world_of_def school_tables_def first_row_def)
  have n: "\<not> startswith (u_password_hash (hd (users_table school_tables))) ''$2b$''"
    by (simp add: school_tables_def startswith_def)
  from verify_user_name_error [OF r f, of checkpw_stub "''secret''"] r f n
  show ?thesis by blast
qed

text \<open>
  Claim C3 says that no method of the database layer ever raises. At the user
  \<open>asha\<close>, whose hash is in the format that \<open>create_user\<close> stores, \<open>verify_user\<close>
  raises \<open>NameError\<close> to its caller although no remote call failed; for the teacher,
  whose hash has the \<open>bcrypt\<close> format, it returns the user.
\<close>

theorem verify_user_raises:
  "fst (verify_user checkpw_stub ''asha'' ''secret'' (world_of school_tables)) =
     Inl (NameError ''check_password_hash'')
   \<and> fst (verify_user checkpw_stub ''mrs_rao'' ''chalk'' (world_of school_tables)) =
       Inr (Some (users_table school_tables ! 1))"
  by (simp add: verify_user_def get_user_def execute_def world_of_def school_tables_def
      first_row_def startswith_def checkpw_stub_def)

subsection \<open>What a remote call changes\<close>

lemma db_print [simp]: "db (print l w) = db w"
  by (simp add: print_def)

lemma db_flash [simp]: "db (flash m c w) = db w"
  by (simp add: flash_def)

lemma db_datetime_now [simp]: "db (snd (datetime_now w)) = db w"
  by (simp add: datetime_now_def)

lemma today_print [simp]: "today (print l w) = today w"
  by (simp add: print_def)

lemma today_flash [simp]: "today (flash m c w) = today w"
  by (simp add: flash_def)

lemma today_execute [simp]: "today (snd (execute request w)) = today w"
  by (simp add: execute_def split: list.split outcome.split)

lemma execute_result:
  "fst (execute request w) = Inr x \<Longrightarrow> x = fst (request (db w))"
  by (auto simp: execute_def split: list.splits outcome.splits)

lemma execute_db:
  "db (snd (execute request w)) = db w \<or> db (snd (execute request w)) = snd (request (db w))"
  by (simp add: execute_def split: list.split outcome.split)

lemma execute_read_db [simp]: "db (snd (execute (\<lambda>t. (f t, t)) w)) = db w"
  using execute_db [of "\<lambda>t. (f t, t)" w] by auto

subsection \<open>One attendance record per student and date\<close>

lemma db_mark_attendance_db:
  "db (snd (db_mark_attendance sid d fd w)) =
     (let e1 = execute (\<lambda>t. (attendance_for sid d t, t)) w
      in case fst e1 of
           Inl e \<Rightarrow> db w
         | Inr existing \<Rightarrow>
             if existing \<noteq> [] then
               db (snd (execute
                 (\<lambda>t. (map (attendance_update sid d fd (fst (datetime_now (snd e1))))
                          (attendance_for sid d t),
                       t\<lparr>attendance_table :=
                           map (attendance_update sid d fd (fst (datetime_now (snd e1))))
                             (attendance_table t)\<rparr>))
                 (snd (datetime_now (snd e1)))))
             else
               db (snd (execute
                 (\<lambda>t. ([attendance_new sid d fd (fst (datetime_now (snd e1)))
                           (fst (datetime_now (snd (datetime_now (snd e1)))))],
                       t\<lparr>attendance_table := attendance_table t @
                           [attendance_new sid d fd (fst (datetime_now (snd e1)))
                              (fst (datetime_now (snd (datetime_now (snd e1)))))]\<rparr>))
                 (snd (datetime_now (snd (datetime_now (snd e1))))))))"
proof -
  have upd: "(\<lambda>a. if a_student_id a = sid \<and> a_date a = d
                  then a\<lparr>a_face_data := fd, a_updated_at := now\<rparr> else a) =
             attendance_update sid d fd now" for now
    by (rule ext) (simp add: attendance_update_def)
  have sel: "(\<lambda>t. (filter (\<lambda>a. a_student_id a = sid \<and> a_date a = d) (attendance_table t), t)) =
             (\<lambda>t. (attendance_for sid d t, t))"
    by (simp add: attendance_for_def)
  show ?thesis
    unfolding db_mark_attendance_def Let_def upd sel
    by (simp add: case_prod_beta attendance_new_def attendance_for_def [symmetric]
        split: sum.split)
qed

lemma db_mark_attendance_tables:
  "db (snd (db_mark_attendance sid d fd w)) = db w
   \<or> (attendance_for sid d (db w) \<noteq> []
       \<and> (\<exists>now. db (snd (db_mark_attendance sid d fd w)) =
             (db w)\<lparr>attendance_table :=
                map (attendance_update sid d fd now) (attendance_table (db w))\<rparr>))
   \<or> (attendance_for sid d (db w) = []
       \<and> (\<exists>created updated. db (snd (db_mark_attendance sid d fd w)) =
             (db w)\<lparr>attendance_table :=
                attendance_table (db w) @ [attendance_new sid d fd created updated]\<rparr>))"
proof -
  let ?e1 = "execute (\<lambda>t. (attendance_for sid d t, t)) w"
  show ?thesis
  proof (cases "fst ?e1")
    case (Inl e)
    then show ?thesis by (simp add: db_mark_attendance_db)
  next
    case (Inr existing)
    then have ex: "existing = attendance_for sid d (db w)"
      by (auto dest: execute_result)
    have d1: "db (snd ?e1) = db w" by simp
    show ?thesis
    proof (cases "existing = []")
      case True
      let ?c = "fst (datetime_now (snd ?e1))"
      let ?u = "fst (datetime_now (snd (datetime_now (snd ?e1))))"
      let ?w3 = "snd (datetime_now (snd (datetime_now (snd ?e1))))"
      let ?r = "\<lambda>t. ([attendance_new sid d fd ?c ?u],
                 t\<lparr>attendance_table := attendance_table t @ [attendance_new sid d fd ?c ?u]\<rparr>)"
      have "db ?w3 = db w" by simp
      with execute_db [of ?r ?w3]
      have "db (snd (execute ?r ?w3)) = db w
            \<or> db (snd (execute ?r ?w3)) =
                (db w)\<lparr>attendance_table :=
                   attendance_table (db w) @ [attendance_new sid d fd ?c ?u]\<rparr>"
        by simp
      moreover have "db (snd (db_mark_attendance sid d fd w)) = db (snd (execute ?r ?w3))"
        using Inr True by (simp add: db_mark_attendance_db Let_def)
      ultimately show ?thesis using True ex by auto
    next
      case False
      let ?n = "fst (datetime_now (snd ?e1))"
      let ?w2 = "snd (datetime_now (snd ?e1))"
      let ?r = "\<lambda>t. (map (attendance_update sid d fd ?n) (attendance_for sid d t),
                 t\<lparr>attendance_table := map (attendance_update sid d fd ?n) (attendance_table t)\<rparr>)"
      have "db ?w2 = db w" by simp
      with execute_db [of ?r ?w2]
      have "db (snd (execute ?r ?w2)) = db w
            \<or> db (snd (execute ?r ?w2)) =
                (db w)\<lparr>attendance_table :=
                   map (attendance_update sid d fd ?n) (attendance_table (db w))\<rparr>"
        by simp
      moreover have "db (snd (db_mark_attendance sid d fd w)) = db (snd (execute ?r ?w2))"
        using Inr False by (simp add: db_mark_attendance_db Let_def)
      ultimately show ?thesis using False ex by auto
    qed
  qed
qed

lemma reliable_datetime_now [simp]: "reliable (snd (datetime_now w)) = reliable w"
  by (simp add: datetime_now_def)

lemma reliable_execute [simp]: "reliable w \<Longrightarrow> reliable (snd (execute request w))"
  by (cases "faults w") (auto simp: execute_def reliable_def split: outcome.splits)

lemma execute_reliable_fst:
  "reliable w \<Longrightarrow> fst (execute request w) = Inr (fst (request (db w)))"
  by (simp add: execute_reliable)

lemma execute_reliable_db:
  "reliable w \<Longrightarrow> db (snd (execute request w)) = snd (request (db w))"
  by (simp add: execute_reliable)

lemma db_mark_attendance_reliable:
  assumes "reliable w"
  shows "db (snd (db_mark_attendance sid d fd w)) =
           (if attendance_for sid d (db w) \<noteq> [] then
              (db w)\<lparr>attendance_table :=
                 map (attendance_update sid d fd
                        (fst (datetime_now (snd (execute (\<lambda>t. (attendance_for sid d t, t)) w)))))
                   (attendance_table (db w))\<rparr>
            else
              (db w)\<lparr>attendance_table := attendance_table (db w) @
                 [attendance_new sid d fd
                    (fst (datetime_now (snd (execute (\<lambda>t. (attendance_for sid d t, t)) w))))
                    (fst (datetime_now (snd (datetime_now
                       (snd (execute (\<lambda>t. (attendance_for sid d t, t)) w))))))]\<rparr>)"
  using assms
  by (simp add: db_mark_attendance_db Let_def execute_reliable_fst execute_reliable_db)

lemma attendance_update_key [simp]:
  "a_student_id (attendance_update sid d fd now a) = a_student_id a"
  "a_date (attendance_update sid d fd now a) = a_date a"
  by (simp_all add: attendance_update_def)

lemma attendance_for_update:
  "[a \<leftarrow> map (attendance_update sid d fd now) rows. a_student_id a = sid' \<and> a_date a = d'] =
   map (attendance_update sid d fd now) [a \<leftarrow> rows. a_student_id a = sid' \<and> a_date a = d']"
  by (induction rows) simp_all

lemma attendance_unique_step:
  assumes "attendance_unique (db w)"
  shows "attendance_unique (db (snd (db_mark_attendance sid d fd w)))"
proof -
  have keys: "map (\<lambda>a. (a_student_id a, a_date a)) (map (attendance_update sid d fd now) rows) =
              map (\<lambda>a. (a_student_id a, a_date a)) rows" for now rows
    by simp
  have fresh: "attendance_for sid d (db w) = [] \<Longrightarrow>
               (sid, d) \<notin> (\<lambda>a. (a_student_id a, a_date a)) ` set (attendance_table (db w))"
    by (auto simp: attendance_for_def filter_empty_conv)
  from db_mark_attendance_tables [of sid d fd w] assms show ?thesis
    unfolding attendance_unique_def
    by (elim disjE conjE exE) (simp_all add: keys fresh attendance_new_def del: map_map)
qed

lemma attendance_for_step:
  "length (attendance_for sid d (db (snd (db_mark_attendance sid d fd w)))) \<le>
     max 1 (length (attendance_for sid d (db w)))"
proof -
  from db_mark_attendance_tables [of sid d fd w] show ?thesis
    by (elim disjE conjE exE)
       (simp_all add: attendance_for_def attendance_for_update attendance_new_def)
qed

text \<open>
  Claim C2. \<open>DatabaseService.mark_attendance\<close> keeps the attendance table at one
  record at most per student and date, whether or not its remote calls fail, and a call
  never leaves more records for its student and date than there were, or than one. When
  the calls succeed and a record for the student and date exists, the table keeps its
  length and order and the matching record is updated in place (image and
  \<open>updated_at\<close>); when none exists, exactly one record is appended.
\<close>

theorem mark_attendance_one_record:
  "(attendance_unique (db w) \<longrightarrow>
      attendance_unique (db (snd (db_mark_attendance student_id date_str face_data w))))
   \<and> length (attendance_for student_id date_str
               (db (snd (db_mark_attendance student_id date_str face_data w)))) \<le>
       max 1 (length (attendance_for student_id date_str (db w)))
   \<and> (reliable w \<longrightarrow>
        (if attendance_for student_id date_str (db w) \<noteq> [] then
           \<exists>now. db (snd (db_mark_attendance student_id date_str face_data w)) =
             (db w)\<lparr>attendance_table :=
                map (attendance_update student_id date_str face_data now)
                  (attendance_table (db w))\<rparr>
         else
           \<exists>created updated. db (snd (db_mark_attendance student_id date_str face_data w)) =
             (db w)\<lparr>attendance_table := attendance_table (db w) @
                [attendance_new student_id date_str face_data created updated]\<rparr>))"
  using attendance_unique_step [of w student_id date_str face_data]
    attendance_for_step [of student_id date_str face_data w]
    db_mark_attendance_reliable [of w student_id date_str face_data]
  by (auto simp del: max.bounded_iff)

theorem mark_attendance_one_record_witness:
  "attendance_unique (db (world_of school_tables)) \<and> reliable (world_of school_tables)
   \<and> attendance_for 1 ''2025-03-03'' (db (world_of school_tables)) \<noteq> []
   \<and> attendance_for 1 ''2025-03-04'' (db (world_of school_tables)) = []
   \<and> attendance_unique
       (db (snd (db_mark_attendance 1 ''2025-03-03'' (Some ''img'') (world_of school_tables))))
   \<and> length (attendance_table
       (db (snd (db_mark_attendance 1 ''2025-03-03'' (Some ''img'') (world_of school_tables)))))
       = 1
   \<and> attendance_unique
       (db (snd (db_mark_attendance 1 ''2025-03-04'' (Some ''img'') (world_of school_tables))))
   \<and> length (attendance_table
       (db (snd (db_mark_attendance 1 ''2025-03-04'' (Some ''img'') (world_of school_tables)))))
       = 2"
proof -
  have d: "db (world_of school_tables) = school_tables"
    by (simp add: world_of_def)
  have u: "attendance_unique (db (world_of school_tables))"
    unfolding d by (simp add: attendance_unique_def school_tables_def)
  have r: "reliable (world_of school_tables)"
    by (simp add: reliable_def world_of_def)
  have e: "attendance_for 1 ''2025-03-03'' (db (world_of school_tables)) \<noteq> []"
    unfolding d by (simp add: attendance_for_def school_tables_def)
  have n: "attendance_for 1 ''2025-03-04'' (db (world_of school_tables)) = []"
    unfolding d by (simp add: attendance_for_def school_tables_def)
  have l: "length (attendance_table (db (world_of school_tables))) = 1"
    unfolding d by (simp add: school_tables_def)
  from mark_attendance_one_record
         [of "world_of school_tables" 1 "''2025-03-03''" "Some ''img''"] u r e l
  have 1: "attendance_unique
       (db (snd (db_mark_attendance 1 ''2025-03-03'' (Some ''img'') (world_of school_tables))))
   \<and> length (attendance_table
       (db (snd (db_mark_attendance 1 ''2025-03-03'' (Some ''img'') (world_of school_tables)))))
       = 1"
    by auto
  from mark_attendance_one_record
         [of "world_of school_tables" 1 "''2025-03-04''" "Some ''img''"] u r n l
  have 2: "attendance_unique
       (db (snd (db_mark_attendance 1 ''2025-03-04'' (Some ''img'') (world_of school_tables))))
   \<and> length (attendance_table
       (db (snd (db_mark_attendance 1 ''2025-03-04'' (Some ''img'') (world_of school_tables)))))
       = 2"
    by auto
  from u r e n 1 2 show ?thesis by blast
qed

subsection \<open>The posted image is stored as it is\<close>

lemma get_user_keeps:
  "reliable w \<Longrightarrow> reliable (snd (get_user username w))"
  "reliable w \<Longrightarrow> db (snd (get_user username w)) = db w"
  "today (snd (get_user username w)) = today w"
  by (simp_all add: get_user_def execute_reliable case_prod_beta split: sum.split)

lemma get_student_keeps:
  "reliable w \<Longrightarrow> reliable (snd (get_student sid w))"
  "reliable w \<Longrightarrow> db (snd (get_student sid w)) = db w"
  "today (snd (get_student sid w)) = today w"
  by (simp_all add: get_student_def execute_reliable case_prod_beta split: sum.split)

lemma get_student_reliable_fst:
  "reliable w \<Longrightarrow>
   fst (get_student sid w) = first_row (filter (\<lambda>s. s_id s = sid) (students_table (db w)))"
  by (simp add: get_student_reliable)

lemma first_row_filter_Some:
  "first_row (filter P rows) = Some r \<Longrightarrow> P r"
proof -
  assume "first_row (filter P rows) = Some r"
  then have "r \<in> set (filter P rows)"
    by (cases "filter P rows") (simp_all add: first_row_def)
  then show "P r" by simp
qed

lemma mark_attendance_post_db:
  assumes "reliable w"
    and "session ''role'' = Some ''student''"
    and "session ''username'' = Some username"
    and "first_row (filter (\<lambda>u. u_username u = username) (users_table (db w))) = Some user"
    and "u_student_id user = Some student_id" and "student_id \<noteq> 0"
    and "first_row (filter (\<lambda>s. s_id s = student_id) (students_table (db w))) = Some student"
    and "req_method request = POST"
    and "req_form request ''face_data'' = Some face_data"
    and "100 < length face_data"
  shows "\<exists>w3. reliable w3 \<and> db w3 = db w
           \<and> db (snd (mark_attendance session request w)) =
               db (snd (db_mark_attendance student_id (today w) (Some face_data) w3))"
proof -
  let ?w1 = "snd (get_user username w)"
  let ?w2 = "snd (get_student student_id ?w1)"
  let ?w3 = "print (''Received face data length: '' @ py_str_int (int (length face_data))) ?w2"
  have u: "fst (get_user username w) = Some user"
    using assms(1,4) by (simp add: get_user_reliable)
  have r1: "reliable ?w1" and d1: "db ?w1 = db w"
    using assms(1) by (simp_all add: get_user_keeps)
  have s: "fst (get_student student_id ?w1) = Some student"
    using r1 d1 assms(7) by (simp add: get_student_reliable_fst)
  have r2: "reliable ?w2" and d2: "db ?w2 = db w"
    using r1 d1 by (simp_all add: get_student_keeps)
  have t: "today ?w3 = today w"
    by (simp add: get_user_keeps get_student_keeps)
  have sid: "s_id student = student_id"
    using first_row_filter_Some [OF assms(7)] .
  have ne: "face_data \<noteq> []" using assms(10) by auto
  have "db (snd (mark_attendance session request w)) =
          db (snd (db_mark_attendance student_id (today w) (Some face_data) ?w3))"
    using assms(2,3,5,6,8,9,10) u s sid ne t
    by (simp add: mark_attendance_def case_prod_beta Let_def truthy_str_def
        split: option.split)
  moreover have "reliable ?w3" "db ?w3 = db w"
    using r2 d2 by simp_all
  ultimately show ?thesis by blast
qed

text \<open>
  Claim C5. A student posts \<open>face_data\<close> of more than 100 characters to the
  attendance route; the user and the student record are found and the remote calls
  succeed. Then the attendance table has a record for the student and today's date, and
  the \<open>face_data\<close> of every such record is the posted string itself, character for
  character.
\<close>

theorem mark_attendance_stores_face_data:
  assumes "reliable w"
    and "session ''role'' = Some ''student''"
    and "session ''username'' = Some username"
    and "first_row (filter (\<lambda>u. u_username u = username) (users_table (db w))) = Some user"
    and "u_student_id user = Some student_id" and "student_id \<noteq> 0"
    and "first_row (filter (\<lambda>s. s_id s = student_id) (students_table (db w))) = Some student"
    and "req_method request = POST"
    and "req_form request ''face_data'' = Some face_data"
    and "100 < length face_data"
  shows "attendance_for student_id (today w) (db (snd (mark_attendance session request w))) \<noteq> []
         \<and> (\<forall>a \<in> set (attendance_for student_id (today w)
                          (db (snd (mark_attendance session request w)))).
               a_face_data a = Some face_data)"
proof -
  from mark_attendance_post_db [OF assms]
  obtain w3 where r3: "reliable w3" and d3: "db w3 = db w"
    and eq: "db (snd (mark_attendance session request w)) =
               db (snd (db_mark_attendance student_id (today w) (Some face_data) w3))"
    by blast
  let ?n = "fst (datetime_now (snd (execute (\<lambda>t. (attendance_for student_id (today w) t, t)) w3)))"
  let ?u = "fst (datetime_now (snd (datetime_now
              (snd (execute (\<lambda>t. (attendance_for student_id (today w) t, t)) w3)))))"
  show ?thesis
  proof (cases "attendance_for student_id (today w) (db w) = []")
    case True
    then have "attendance_for student_id (today w) (db (snd (mark_attendance session request w))) =
                 [attendance_new student_id (today w) (Some face_data) ?n ?u]"
      unfolding eq db_mark_attendance_reliable [OF r3] d3
      by (simp add: attendance_for_def attendance_new_def)
    then show ?thesis by (simp add: attendance_new_def)
  next
    case False
    then have "attendance_for student_id (today w) (db (snd (mark_attendance session request w))) =
                 map (attendance_update student_id (today w) (Some face_data) ?n)
                   (attendance_for student_id (today w) (db w))"
      unfolding eq db_mark_attendance_reliable [OF r3] d3
      by (simp add: attendance_for_def attendance_for_update)
    with False show ?thesis
      by (auto simp: attendance_for_def attendance_update_def)
  qed
qed

theorem mark_attendance_stores_face_data_witness:
  "reliable (world_of school_tables)
   \<and> student_session ''role'' = Some ''student''
   \<and> student_session ''username'' = Some ''asha''
   \<and> first_row (filter (\<lambda>u. u_username u = ''asha'')
        (users_table (db (world_of school_tables)))) = Some (hd (users_table school_tables))
   \<and> u_student_id (hd (users_table school_tables)) = Some 1
   \<and> first_row (filter (\<lambda>s. s_id s = 1) (students_table (db (world_of school_tables)))) =
       Some demo_student
   \<and> req_method face_request = POST
   \<and> req_form face_request ''face_data'' = Some face_image
   \<and> 100 < length face_image
   \<and> map a_face_data
       (attendance_for 1 ''2025-04-01''
          (db (snd (mark_attendance student_session face_request (world_of school_tables))))) =
       [Some face_image]"
proof -
  have d: "db (world_of school_tables) = school_tables"
    by (simp add: world_of_def)
  have t: "today (world_of school_tables) = ''2025-04-01''"
    by (simp add: world_of_def)
  have r: "reliable (world_of school_tables)"
    by (simp add: reliable_def world_of_def)
  have s1: "student_session ''role'' = Some ''student''"
    and s2: "student_session ''username'' = Some ''asha''"
    by (simp_all add: student_session_def)
  have u: "first_row (filter (\<lambda>u. u_username u = ''asha'')
        (users_table (db (world_of school_tables)))) = Some (hd (users_table school_tables))"
    unfolding d by (simp add: school_tables_def first_row_def)
  have i: "u_student_id (hd (users_table school_tables)) = Some 1"
    by (simp add: school_tables_def)
  have f: "first_row (filter (\<lambda>s. s_id s = 1) (students_table (db (world_of school_tables)))) =
       Some demo_student"
    unfolding d by (simp add: school_tables_def demo_student_def first_row_def)
  have m: "req_method face_request = POST"
    and q: "req_form face_request ''face_data'' = Some face_image"
    by (simp_all add: face_request_def)
  have l: "100 < length face_image"
    by (simp add: face_image_def)
  have z: "(1::int) \<noteq> 0" by simp
  have len: "length (attendance_for 1 ''2025-04-01''
          (db (snd (mark_attendance student_session face_request (world_of school_tables))))) \<le> 1"
  proof -
    from mark_attendance_post_db [OF r s1 s2 u i z f m q l]
    obtain w3 where "db w3 = db (world_of school_tables)"
      and eq: "db (snd (mark_attendance student_session face_request (world_of school_tables))) =
               db (snd (db_mark_attendance 1 (today (world_of school_tables))
                          (Some face_image) w3))"
      by blast
    then have "attendance_for 1 ''2025-04-01'' (db w3) = []"
      unfolding d by (simp add: attendance_for_def school_tables_def)
    with attendance_for_step [of 1 "''2025-04-01''" "Some face_image" w3] eq t
    show ?thesis by simp
  qed
  from mark_attendance_stores_face_data [OF r s1 s2 u i z f m q l, unfolded t]
  have "map a_face_data
       (attendance_for 1 ''2025-04-01''
          (db (snd (mark_attendance student_session face_request (world_of school_tables))))) =
       [Some face_image]"
    using len
    by (cases "attendance_for 1 ''2025-04-01''
          (db (snd (mark_attendance student_session face_request (world_of school_tables))))")
       auto
  with r s1 s2 u i f m q l show ?thesis by blast
qed

subsection \<open>Saving and reading back marks and grades\<close>

lemma marks_records_items:
  "map (\<lambda>r. (m_subject r, m_mark r)) (fst (marks_records sid d w)) = d"
  by (induction d arbitrary: w) (auto simp: case_prod_beta)

lemma marks_records_student:
  "r \<in> set (fst (marks_records sid d w)) \<Longrightarrow> m_student_id r = sid"
  by (induction d arbitrary: w) (auto simp: case_prod_beta)

lemma marks_records_db [simp]: "db (snd (marks_records sid d w)) = db w"
  by (induction d arbitrary: w) (auto simp: case_prod_beta)

lemma marks_records_reliable [simp]: "reliable (snd (marks_records sid d w)) = reliable w"
proof (induction d arbitrary: w)
  case Nil
  show ?case by simp
next
  case (Cons x d)
  from Cons [of "snd (datetime_now w)"] show ?case
    by (cases x) (simp add: case_prod_beta)
qed

lemma marks_records_filter:
  "filter (\<lambda>m. m_student_id m = other) (fst (marks_records sid d w)) =
     (if other = sid then fst (marks_records sid d w) else [])"
  by (auto simp: filter_id_conv filter_empty_conv dest: marks_records_student)

lemma grades_records_items:
  "map (\<lambda>r. (g_subject r, g_grade r)) (fst (grades_records sid d w)) = d"
  by (induction d arbitrary: w) (auto simp: case_prod_beta)

lemma grades_records_student:
  "r \<in> set (fst (grades_records sid d w)) \<Longrightarrow> g_student_id r = sid"
  by (induction d arbitrary: w) (auto simp: case_prod_beta)

lemma grades_records_db [simp]: "db (snd (grades_records sid d w)) = db w"
  by (induction d arbitrary: w) (auto simp: case_prod_beta)

lemma grades_records_reliable [simp]: "reliable (snd (grades_records sid d w)) = reliable w"
proof (induction d arbitrary: w)
  case Nil
  show ?case by simp
next
  case (Cons x d)
  from Cons [of "snd (datetime_now w)"] show ?case
    by (cases x) (simp add: case_prod_beta)
qed

lemma grades_records_filter:
  "filter (\<lambda>g. g_student_id g = other) (fst (grades_records sid d w)) =
     (if other = sid then fst (grades_records sid d w) else [])"
  by (auto simp: filter_id_conv filter_empty_conv dest: grades_records_student)

lemma update_fresh: "k \<notin> fst ` set al \<Longrightarrow> AList.update k v al = al @ [(k, v)]"
  by (induction al) auto

lemma fold_update_distinct:
  "distinct (map fst acc @ map key rows) \<Longrightarrow>
   fold (\<lambda>r d. AList.update (key r) (val r) d) rows acc = acc @ map (\<lambda>r. (key r, val r)) rows"
proof (induction rows arbitrary: acc)
  case Nil
  then show ?case by simp
next
  case (Cons r rows)
  from Cons.prems have fresh: "key r \<notin> fst ` set acc" by auto
  from Cons.prems have "distinct (map fst (acc @ [(key r, val r)]) @ map key rows)" by auto
  from Cons.IH [OF this] show ?case by (simp add: update_fresh [OF fresh])
qed

lemma fold_update_keys_distinct:
  "distinct (map fst acc) \<Longrightarrow>
   distinct (map fst (fold (\<lambda>r d. AList.update (key r) (val r) d) rows acc))"
  by (induction rows arbitrary: acc) (simp_all add: distinct_update)

lemma stored_marks_distinct: "distinct (map fst (stored_marks t sid))"
  by (simp add: stored_marks_def fold_update_keys_distinct)

lemma stored_grades_distinct: "distinct (map fst (stored_grades t sid))"
  by (simp add: stored_grades_def fold_update_keys_distinct)

lemma get_student_marks_reliable:
  "reliable w \<Longrightarrow> fst (get_student_marks sid w) = stored_marks (db w) sid"
  by (simp add: get_student_marks_def stored_marks_def execute_reliable)

lemma get_student_grades_reliable:
  "reliable w \<Longrightarrow> fst (get_student_grades sid w) = stored_grades (db w) sid"
  by (simp add: get_student_grades_def stored_grades_def execute_reliable)

lemma save_marks_reliable:
  assumes "reliable w"
  shows "reliable (snd (save_marks sid d w))
         \<and> (\<exists>w1. db (snd (save_marks sid d w)) =
               (db w)\<lparr>marks_table :=
                  filter (\<lambda>m. m_student_id m \<noteq> sid) (marks_table (db w)) @
                  fst (marks_records sid d w1)\<rparr>)"
proof -
  let ?del = "\<lambda>t. (filter (\<lambda>m. m_student_id m = sid) (marks_table t),
                   t\<lparr>marks_table := filter (\<lambda>m. m_student_id m \<noteq> sid) (marks_table t)\<rparr>)"
  let ?w1 = "snd (execute ?del w)"
  let ?recs = "fst (marks_records sid d ?w1)"
  let ?w2 = "snd (marks_records sid d ?w1)"
  have r1: "reliable ?w1" using assms by simp
  have d1: "db ?w1 = snd (?del (db w))" using assms by (simp add: execute_reliable_db)
  have f1: "fst (execute ?del w) = Inr (fst (?del (db w)))"
    using assms by (simp add: execute_reliable_fst)
  have r2: "reliable ?w2" using r1 by simp
  have d2: "db ?w2 = db ?w1" by simp
  let ?ins = "\<lambda>t. (?recs, t\<lparr>marks_table := marks_table t @ ?recs\<rparr>)"
  have sm: "snd (save_marks sid d w) =
              (if ?recs \<noteq> [] then snd (execute ?ins ?w2) else ?w2)"
    using f1 r2 by (simp add: save_marks_def case_prod_beta execute_reliable_fst)
  have a: "reliable (snd (save_marks sid d w))"
    unfolding sm using r2 by simp
  have c: "db (snd (save_marks sid d w)) =
          (db w)\<lparr>marks_table := filter (\<lambda>m. m_student_id m \<noteq> sid) (marks_table (db w)) @ ?recs\<rparr>"
    unfolding sm using r2 d2 d1 by (simp add: execute_reliable_db)
  from a c show ?thesis by blast
qed

lemma save_grades_reliable:
  assumes "reliable w"
  shows "reliable (snd (save_grades sid d w))
         \<and> (\<exists>w1. db (snd (save_grades sid d w)) =
               (db w)\<lparr>grades_table :=
                  filter (\<lambda>g. g_student_id g \<noteq> sid) (grades_table (db w)) @
                  fst (grades_records sid d w1)\<rparr>)"
proof -
  let ?del = "\<lambda>t. (filter (\<lambda>g. g_student_id g = sid) (grades_table t),
                   t\<lparr>grades_table := filter (\<lambda>g. g_student_id g \<noteq> sid) (grades_table t)\<rparr>)"
  let ?w1 = "snd (execute ?del w)"
  let ?recs = "fst (grades_records sid d ?w1)"
  let ?w2 = "snd (grades_records sid d ?w1)"
  have r1: "reliable ?w1" using assms by simp
  have d1: "db ?w1 = snd (?del (db w))" using assms by (simp add: execute_reliable_db)
  have f1: "fst (execute ?del w) = Inr (fst (?del (db w)))"
    using assms by (simp add: execute_reliable_fst)
  have r2: "reliable ?w2" using r1 by simp
  have d2: "db ?w2 = db ?w1" by simp
  let ?ins = "\<lambda>t. (?recs, t\<lparr>grades_table := grades_table t @ ?recs\<rparr>)"
  have sm: "snd (save_grades sid d w) =
              (if ?recs \<noteq> [] then snd (execute ?ins ?w2) else ?w2)"
    using f1 r2 by (simp add: save_grades_def case_prod_beta execute_reliable_fst)
  have a: "reliable (snd (save_grades sid d w))"
    unfolding sm using r2 by simp
  have c: "db (snd (save_grades sid d w)) =
          (db w)\<lparr>grades_table := filter (\<lambda>g. g_student_id g \<noteq> sid) (grades_table (db w)) @ ?recs\<rparr>"
    unfolding sm using r2 d2 d1 by (simp add: execute_reliable_db)
  from a c show ?thesis by blast
qed

lemma stored_marks_saved:
  assumes "distinct (map fst d)"
  shows "stored_marks
           (t\<lparr>marks_table := filter (\<lambda>m. m_student_id m \<noteq> sid) (marks_table t) @
                 fst (marks_records sid d w1)\<rparr>) other =
         (if other = sid then d else stored_marks t other)"
proof -
  have k: "map m_subject (fst (marks_records sid d w1)) = map fst d"
    using arg_cong [OF marks_records_items [of sid d w1], of "map fst"] by (simp add: comp_def)
  have "fold (\<lambda>r acc. AList.update (m_subject r) (m_mark r) acc) (fst (marks_records sid d w1)) [] =
          [] @ map (\<lambda>r. (m_subject r, m_mark r)) (fst (marks_records sid d w1))"
    by (rule fold_update_distinct) (simp add: k assms)
  then have own: "fold (\<lambda>r acc. AList.update (m_subject r) (m_mark r) acc)
                    (fst (marks_records sid d w1)) [] = d"
    by (simp add: marks_records_items)
  have f: "filter (\<lambda>m. m_student_id m \<noteq> sid \<and> m_student_id m = other) rows =
           (if other = sid then [] else filter (\<lambda>m. m_student_id m = other) rows)"
    for rows :: "mark_row list"
    by (induction rows) auto
  show ?thesis
    by (simp add: stored_marks_def marks_records_filter f own)
qed

lemma stored_grades_saved:
  assumes "distinct (map fst d)"
  shows "stored_grades
           (t\<lparr>grades_table := filter (\<lambda>g. g_student_id g \<noteq> sid) (grades_table t) @
                 fst (grades_records sid d w1)\<rparr>) other =
         (if other = sid then d else stored_grades t other)"
proof -
  have k: "map g_subject (fst (grades_records sid d w1)) = map fst d"
    using arg_cong [OF grades_records_items [of sid d w1], of "map fst"] by (simp add: comp_def)
  have "fold (\<lambda>r acc. AList.update (g_subject r) (g_grade r) acc) (fst (grades_records sid d w1)) [] =
          [] @ map (\<lambda>r. (g_subject r, g_grade r)) (fst (grades_records sid d w1))"
    by (rule fold_update_distinct) (simp add: k assms)
  then have own: "fold (\<lambda>r acc. AList.update (g_subject r) (g_grade r) acc)
                    (fst (grades_records sid d w1)) [] = d"
    by (simp add: grades_records_items)
  have f: "filter (\<lambda>g. g_student_id g \<noteq> sid \<and> g_student_id g = other) rows =
           (if other = sid then [] else filter (\<lambda>g. g_student_id g = other) rows)"
    for rows :: "grade_row list"
    by (induction rows) auto
  show ?thesis
    by (simp add: stored_grades_def grades_records_filter f own)
qed

lemma stored_marks_grades_table [simp]:
  "stored_marks (t\<lparr>grades_table := g\<rparr>) sid = stored_marks t sid"
  by (simp add: stored_marks_def)

lemma stored_grades_marks_table [simp]:
  "stored_grades (t\<lparr>marks_table := m\<rparr>) sid = stored_grades t sid"
  by (simp add: stored_grades_def)

lemma save_marks_stored:
  assumes "reliable w" and "distinct (map fst d)"
  shows "reliable (snd (save_marks sid d w))"
    and "stored_marks (db (snd (save_marks sid d w))) other =
           (if other = sid then d else stored_marks (db w) other)"
    and "stored_grades (db (snd (save_marks sid d w))) other = stored_grades (db w) other"
  using save_marks_reliable [OF assms(1), of sid d]
  by (auto simp: stored_marks_saved [OF assms(2)])

lemma save_grades_stored:
  assumes "reliable w" and "distinct (map fst d)"
  shows "reliable (snd (save_grades sid d w))"
    and "stored_grades (db (snd (save_grades sid d w))) other =
           (if other = sid then d else stored_grades (db w) other)"
    and "stored_marks (db (snd (save_grades sid d w))) other = stored_marks (db w) other"
  using save_grades_reliable [OF assms(1), of sid d]
  by (auto simp: stored_grades_saved [OF assms(2)])

subsection \<open>The loops of \<open>enter_marks\<close>\<close>

lemma enter_marks_subjects_step:
  "enter_marks_subjects to_int form sid (subject # rest) (ms, gs) =
     (case parsed_mark to_int form sid subject of
        None \<Rightarrow> enter_marks_subjects to_int form sid rest (ms, gs)
      | Some mark \<Rightarrow>
          enter_marks_subjects to_int form sid rest
            (AList.update subject mark ms, AList.update subject (enter_marks_grade mark) gs))"
  by (simp add: parsed_mark_def split: option.split)

lemma enter_marks_subjects_marks:
  "map_of (fst (enter_marks_subjects to_int form sid subjects (ms, gs))) s =
     (if s \<in> set subjects then
        (case parsed_mark to_int form sid s of Some m \<Rightarrow> Some m | None \<Rightarrow> map_of ms s)
      else map_of ms s)"
proof (induction subjects arbitrary: ms gs)
  case Nil
  show ?case by simp
next
  case (Cons x subjects)
  show ?case
    unfolding enter_marks_subjects_step
    by (cases "parsed_mark to_int form sid x")
       (auto simp: Cons.IH update_conv' split: option.split)
qed

lemma enter_marks_subjects_grades:
  "map_of (snd (enter_marks_subjects to_int form sid subjects (ms, gs))) s =
     (if s \<in> set subjects then
        (case parsed_mark to_int form sid s of
           Some m \<Rightarrow> Some (enter_marks_grade m) | None \<Rightarrow> map_of gs s)
      else map_of gs s)"
proof (induction subjects arbitrary: ms gs)
  case Nil
  show ?case by simp
next
  case (Cons x subjects)
  show ?case
    unfolding enter_marks_subjects_step
    by (cases "parsed_mark to_int form sid x")
       (auto simp: Cons.IH update_conv' split: option.split)
qed

lemma enter_marks_subjects_distinct:
  "distinct (map fst ms) \<Longrightarrow> distinct (map fst gs) \<Longrightarrow>
   distinct (map fst (fst (enter_marks_subjects to_int form sid subjects (ms, gs))))
   \<and> distinct (map fst (snd (enter_marks_subjects to_int form sid subjects (ms, gs))))"
proof (induction subjects arbitrary: ms gs)
  case Nil
  then show ?case by simp
next
  case (Cons x subjects)
  show ?case
    unfolding enter_marks_subjects_step
    by (cases "parsed_mark to_int form sid x")
       (simp_all add: Cons.IH Cons.prems distinct_update)
qed

lemma submitted_distinct:
  "distinct (map fst (submitted_marks to_int form subjects sid))"
  "distinct (map fst (submitted_grades to_int form subjects sid))"
  using enter_marks_subjects_distinct [of "[]" "[]" to_int form sid subjects]
  by (simp_all add: submitted_marks_def submitted_grades_def)

lemma submitted_marks_lookup:
  "map_of (submitted_marks to_int form subjects sid) s =
     (if s \<in> set subjects then parsed_mark to_int form sid s else None)"
  by (simp add: submitted_marks_def enter_marks_subjects_marks split: option.split)

lemma submitted_grades_lookup:
  "map_of (submitted_grades to_int form subjects sid) s =
     (if s \<in> set subjects then map_option enter_marks_grade (parsed_mark to_int form sid s)
      else None)"
  by (simp add: submitted_grades_def enter_marks_subjects_grades split: option.split)

lemma maybe_save_marks:
  assumes "reliable v" and "distinct (map fst m)"
  shows "reliable (if m \<noteq> [] then snd (save_marks sid m v) else v)"
    and "stored_marks (db (if m \<noteq> [] then snd (save_marks sid m v) else v)) other =
           (if other = sid \<and> m \<noteq> [] then m else stored_marks (db v) other)"
    and "stored_grades (db (if m \<noteq> [] then snd (save_marks sid m v) else v)) other =
           stored_grades (db v) other"
  using assms(1) by (simp_all add: save_marks_stored [OF assms(1,2)])

lemma maybe_save_grades:
  assumes "reliable v" and "distinct (map fst g)"
  shows "reliable (if g \<noteq> [] then snd (save_grades sid g v) else v)"
    and "stored_grades (db (if g \<noteq> [] then snd (save_grades sid g v) else v)) other =
           (if other = sid \<and> g \<noteq> [] then g else stored_grades (db v) other)"
    and "stored_marks (db (if g \<noteq> [] then snd (save_grades sid g v) else v)) other =
           stored_marks (db v) other"
  using assms(1) by (simp_all add: save_grades_stored [OF assms(1,2)])

lemma enter_marks_student_stored:
  assumes "reliable w"
  shows "reliable (enter_marks_student to_int form subjects student w)"
    and "stored_marks (db (enter_marks_student to_int form subjects student w)) other =
           (if other = s_id student \<and> submitted_marks to_int form subjects (s_id student) \<noteq> []
            then submitted_marks to_int form subjects (s_id student)
            else stored_marks (db w) other)"
    and "stored_grades (db (enter_marks_student to_int form subjects student w)) other =
           (if other = s_id student \<and> submitted_grades to_int form subjects (s_id student) \<noteq> []
            then submitted_grades to_int form subjects (s_id student)
            else stored_grades (db w) other)"
proof -
  let ?m = "submitted_marks to_int form subjects (s_id student)"
  let ?g = "submitted_grades to_int form subjects (s_id student)"
  define w1 where "w1 = (if ?m \<noteq> [] then snd (save_marks (s_id student) ?m w) else w)"
  define w2 where "w2 = (if ?g \<noteq> [] then snd (save_grades (s_id student) ?g w1) else w1)"
  have e: "enter_marks_student to_int form subjects student w = w2"
    by (simp add: enter_marks_student_def submitted_marks_def submitted_grades_def
        case_prod_beta Let_def w1_def w2_def)
  note dm = submitted_distinct(1) [of to_int form subjects "s_id student"]
  note dg = submitted_distinct(2) [of to_int form subjects "s_id student"]
  note s1 = maybe_save_marks [OF assms dm, of "s_id student", folded w1_def]
  note s2 = maybe_save_grades [OF s1(1) dg, of "s_id student", folded w2_def]
  show "reliable (enter_marks_student to_int form subjects student w)"
    unfolding e by (rule s2(1))
  show "stored_marks (db (enter_marks_student to_int form subjects student w)) other =
           (if other = s_id student \<and> ?m \<noteq> [] then ?m else stored_marks (db w) other)"
    unfolding e s2(3) by (rule s1(2))
  show "stored_grades (db (enter_marks_student to_int form subjects student w)) other =
           (if other = s_id student \<and> ?g \<noteq> [] then ?g else stored_grades (db w) other)"
    unfolding e s2(2) s1(3) by (rule refl)
qed

lemma enter_marks_students_stored:
  assumes "reliable w"
  shows "reliable (enter_marks_students to_int form subjects sts w)"
    and "stored_marks (db (enter_marks_students to_int form subjects sts w)) other =
           (if other \<in> s_id ` set sts \<and> submitted_marks to_int form subjects other \<noteq> []
            then submitted_marks to_int form subjects other
            else stored_marks (db w) other)"
    and "stored_grades (db (enter_marks_students to_int form subjects sts w)) other =
           (if other \<in> s_id ` set sts \<and> submitted_grades to_int form subjects other \<noteq> []
            then submitted_grades to_int form subjects other
            else stored_grades (db w) other)"
  using assms
proof (induction sts arbitrary: w)
  case Nil
  case 1 then show ?case by simp
  case 2 then show ?case by simp
  case 3 then show ?case by simp
next
  case (Cons s sts)
  case 1
  note r = enter_marks_student_stored(1) [OF 1, of to_int form subjects s]
  show ?case using Cons.IH(1) [OF r] by simp
  case 2
  note r = enter_marks_student_stored(1) [OF 2, of to_int form subjects s]
  show ?case
    by (auto simp: Cons.IH(2) [OF r] enter_marks_student_stored(2) [OF 2])
  case 3
  note r = enter_marks_student_stored(1) [OF 3, of to_int form subjects s]
  show ?case
    by (auto simp: Cons.IH(3) [OF r] enter_marks_student_stored(3) [OF 3])
qed

lemma enter_marks_grade_table: "enter_marks_grade m = grade_table m"
  by (simp add: enter_marks_grade_def grade_table_def)

lemma reliable_faults_update [simp]:
  "reliable (w\<lparr>faults := fs\<rparr>) = list_all (\<lambda>f. f = Succeeds) fs"
  by (simp add: reliable_def)

lemma reliable_tl_faults [simp]:
  "reliable w \<Longrightarrow> list_all (\<lambda>f. f = Succeeds) (tl (faults w))"
  by (cases "faults w") (simp_all add: reliable_def)

lemma get_all_students_keeps:
  assumes "reliable w"
  shows "fst (get_all_students w) = sort_key s_name (students_table (db w))"
    and "reliable (snd (get_all_students w))"
    and "db (snd (get_all_students w)) = db w"
  using assms by (simp_all add: get_all_students_def execute_reliable)

lemma get_all_teachers_keeps:
  assumes "reliable w"
  shows "fst (get_all_teachers w) = sort_key t_name (teachers_table (db w))"
    and "reliable (snd (get_all_teachers w))"
    and "db (snd (get_all_teachers w)) = db w"
  using assms by (simp_all add: get_all_teachers_def execute_reliable)

lemma enter_marks_post:
  assumes "reliable w" and "session ''role'' = Some ''teacher''" and "req_method request = POST"
  shows "\<exists>w2 filtered subjects.
           reliable w2 \<and> db w2 = db w
           \<and> set subjects = t_subject ` set (teachers_table (db w))
           \<and> set filtered =
               {s \<in> set (students_table (db w)). s_class s = class_name \<and> s_section s = section_name}
           \<and> snd (enter_marks to_int session request class_name section_name w) =
               flash ''Marks and grades updated!'' ''success''
                 (enter_marks_students to_int (req_form request) subjects filtered w2)"
proof -
  let ?w1 = "snd (get_all_students w)"
  let ?w2 = "snd (get_all_teachers ?w1)"
  let ?filtered = "filter (\<lambda>s. s_class s = class_name \<and> s_section s = section_name)
                     (fst (get_all_students w))"
  let ?subjects = "map t_subject (fst (get_all_teachers ?w1))"
  have r1: "reliable ?w1" and d1: "db ?w1 = db w"
    and s1: "fst (get_all_students w) = sort_key s_name (students_table (db w))"
    using assms(1) by (simp_all add: get_all_students_keeps)
  have r2: "reliable ?w2" and d2: "db ?w2 = db w"
    and s2: "fst (get_all_teachers ?w1) = sort_key t_name (teachers_table (db w))"
    using r1 d1 by (simp_all add: get_all_teachers_keeps)
  have e: "snd (enter_marks to_int session request class_name section_name w) =
             flash ''Marks and grades updated!'' ''success''
               (enter_marks_students to_int (req_form request) ?subjects ?filtered ?w2)"
    using assms(2,3) by (simp add: enter_marks_def case_prod_beta Let_def)
  have a: "set ?subjects = t_subject ` set (teachers_table (db w))"
    unfolding s2 by simp
  have b: "set ?filtered =
             {s \<in> set (students_table (db w)). s_class s = class_name \<and> s_section s = section_name}"
    unfolding s1 by auto
  from r2 d2 a b e show ?thesis by blast
qed

lemma submitted_marks_cong:
  "set subjects = set subjects' \<Longrightarrow>
   map_of (submitted_marks to_int form subjects sid) =
   map_of (submitted_marks to_int form subjects' sid)"
  by (rule ext) (simp add: submitted_marks_lookup)

lemma enter_marks_stored:
  assumes "reliable w" and "session ''role'' = Some ''teacher''" and "req_method request = POST"
    and "student \<in> set (students_table (db w))"
    and "s_class student = class_name" and "s_section student = section_name"
  shows "\<exists>subjects.
           set subjects = t_subject ` set (teachers_table (db w))
           \<and> reliable (snd (enter_marks to_int session request class_name section_name w))
           \<and> (submitted_marks to_int (req_form request) subjects (s_id student) \<noteq> [] \<longrightarrow>
                stored_marks (db (snd (enter_marks to_int session request class_name section_name w)))
                  (s_id student) =
                submitted_marks to_int (req_form request) subjects (s_id student))
           \<and> (submitted_grades to_int (req_form request) subjects (s_id student) \<noteq> [] \<longrightarrow>
                stored_grades (db (snd (enter_marks to_int session request class_name section_name w)))
                  (s_id student) =
                submitted_grades to_int (req_form request) subjects (s_id student))"
proof -
  from enter_marks_post
         [where w = w and session = session and request = request
            and class_name = class_name and section_name = section_name and to_int = to_int,
          OF assms(1-3)]
  obtain w2 filtered subjects where
    r2: "reliable w2" and
    a: "set subjects = t_subject ` set (teachers_table (db w))" and
    b: "set filtered =
          {s \<in> set (students_table (db w)). s_class s = class_name \<and> s_section s = section_name}" and
    e: "snd (enter_marks to_int session request class_name section_name w) =
          flash ''Marks and grades updated!'' ''success''
            (enter_marks_students to_int (req_form request) subjects filtered w2)"
    by blast
  have m: "s_id student \<in> s_id ` set filtered"
    unfolding b using assms(4-6) by blast
  note st = enter_marks_students_stored [OF r2, of to_int "req_form request" subjects filtered]
  show ?thesis
    by (rule exI [of _ subjects]) (simp add: a e st m)
qed

text \<open>
  Claim C1. A teacher posts the marks form for a class; the remote calls succeed. For
  a student of the class and a subject taught by some teacher, if the form field of that
  student and subject holds a non-empty value that parses as the integer \<open>m\<close>, then the
  grade computed for it is the letter of the threshold table (A from 90, B from 80 and
  below 90, C from 70 and below 80, D from 60 and below 70, E from 40 and below 60, F
  otherwise), and it is the grade stored for the student in that subject after the
  request.
\<close>

theorem enter_marks_saves_table_grade:
  assumes "reliable w" and "session ''role'' = Some ''teacher''" and "req_method request = POST"
    and "student \<in> set (students_table (db w))"
    and "s_class student = class_name" and "s_section student = section_name"
    and "subject \<in> t_subject ` set (teachers_table (db w))"
    and "req_form request (mark_key (s_id student) subject) = Some mark_val"
    and "mark_val \<noteq> []" and "to_int mark_val = Some m"
  shows "enter_marks_grade m = grade_table m
         \<and> map_of (fst (get_student_grades (s_id student)
                          (snd (enter_marks to_int session request class_name section_name w))))
             subject = Some (grade_table m)"
proof -
  from enter_marks_stored
         [where w = w and session = session and request = request and student = student
            and class_name = class_name and section_name = section_name and to_int = to_int,
          OF assms(1-6)]
  obtain subjects where
    a: "set subjects = t_subject ` set (teachers_table (db w))" and
    r: "reliable (snd (enter_marks to_int session request class_name section_name w))" and
    g: "submitted_grades to_int (req_form request) subjects (s_id student) \<noteq> [] \<longrightarrow>
          stored_grades (db (snd (enter_marks to_int session request class_name section_name w)))
            (s_id student) =
          submitted_grades to_int (req_form request) subjects (s_id student)"
    by blast
  have p: "parsed_mark to_int (req_form request) (s_id student) subject = Some m"
    using assms(8-10) by (simp add: parsed_mark_def)
  have l: "map_of (submitted_grades to_int (req_form request) subjects (s_id student)) subject =
             Some (enter_marks_grade m)"
    using a assms(7) p by (simp add: submitted_grades_lookup)
  then have "submitted_grades to_int (req_form request) subjects (s_id student) \<noteq> []"
    by auto
  with g l
  have "map_of (stored_grades (db (snd (enter_marks to_int session request class_name section_name w)))
                  (s_id student)) subject = Some (enter_marks_grade m)"
    by simp
  then show ?thesis
    by (simp add: get_student_grades_reliable [OF r] enter_marks_grade_table)
qed

lemma save_marks_rows:
  assumes "reliable w"
  shows "map (\<lambda>r. (m_subject r, m_mark r))
           (filter (\<lambda>r. m_student_id r = sid) (marks_table (db (snd (save_marks sid d w))))) = d"
    and "other \<noteq> sid \<Longrightarrow>
         filter (\<lambda>r. m_student_id r = other) (marks_table (db (snd (save_marks sid d w)))) =
         filter (\<lambda>r. m_student_id r = other) (marks_table (db w))"
proof -
  from save_marks_reliable [OF assms, of sid d]
  obtain w1 where e: "db (snd (save_marks sid d w)) =
      (db w)\<lparr>marks_table := filter (\<lambda>m. m_student_id m \<noteq> sid) (marks_table (db w)) @
                 fst (marks_records sid d w1)\<rparr>"
    by blast
  have f: "filter (\<lambda>m. m_student_id m \<noteq> sid \<and> m_student_id m = x) rows =
           (if x = sid then [] else filter (\<lambda>m. m_student_id m = x) rows)"
    for rows :: "mark_row list" and x
    by (induction rows) auto
  show "map (\<lambda>r. (m_subject r, m_mark r))
           (filter (\<lambda>r. m_student_id r = sid) (marks_table (db (snd (save_marks sid d w))))) = d"
    unfolding e by (simp add: f marks_records_filter marks_records_items)
  show "other \<noteq> sid \<Longrightarrow>
         filter (\<lambda>r. m_student_id r = other) (marks_table (db (snd (save_marks sid d w)))) =
         filter (\<lambda>r. m_student_id r = other) (marks_table (db w))"
    unfolding e by (simp add: f marks_records_filter)
qed

lemma save_grades_rows:
  assumes "reliable w"
  shows "map (\<lambda>r. (g_subject r, g_grade r))
           (filter (\<lambda>r. g_student_id r = sid) (grades_table (db (snd (save_grades sid d w))))) = d"
    and "other \<noteq> sid \<Longrightarrow>
         filter (\<lambda>r. g_student_id r = other) (grades_table (db (snd (save_grades sid d w)))) =
         filter (\<lambda>r. g_student_id r = other) (grades_table (db w))"
proof -
  from save_grades_reliable [OF assms, of sid d]
  obtain w1 where e: "db (snd (save_grades sid d w)) =
      (db w)\<lparr>grades_table := filter (\<lambda>g. g_student_id g \<noteq> sid) (grades_table (db w)) @
                 fst (grades_records sid d w1)\<rparr>"
    by blast
  have f: "filter (\<lambda>g. g_student_id g \<noteq> sid \<and> g_student_id g = x) rows =
           (if x = sid then [] else filter (\<lambda>g. g_student_id g = x) rows)"
    for rows :: "grade_row list" and x
    by (induction rows) auto
  show "map (\<lambda>r. (g_subject r, g_grade r))
           (filter (\<lambda>r. g_student_id r = sid) (grades_table (db (snd (save_grades sid d w))))) = d"
    unfolding e by (simp add: f grades_records_filter grades_records_items)
  show "other \<noteq> sid \<Longrightarrow>
         filter (\<lambda>r. g_student_id r = other) (grades_table (db (snd (save_grades sid d w)))) =
         filter (\<lambda>r. g_student_id r = other) (grades_table (db w))"
    unfolding e by (simp add: f grades_records_filter)
qed

lemma save_marks_read_back:
  assumes "reliable w" and "distinct (map fst d)"
  shows "fst (get_student_marks sid (snd (save_marks sid d w))) = d"
  by (simp add: get_student_marks_reliable save_marks_stored [OF assms])

lemma save_grades_read_back:
  assumes "reliable w" and "distinct (map fst d)"
  shows "fst (get_student_grades sid (snd (save_grades sid d w))) = d"
  by (simp add: get_student_grades_reliable save_grades_stored [OF assms])

lemma enter_marks_read_back:
  assumes "reliable w" and "session ''role'' = Some ''teacher''" and "req_method request = POST"
    and "student \<in> set (students_table (db w))"
    and "s_class student = class_name" and "s_section student = section_name"
    and "subject \<in> t_subject ` set (teachers_table (db w))"
    and "parsed_mark to_int (req_form request) (s_id student) subject = Some m"
  shows "map_of (fst (get_student_marks (s_id student)
                        (snd (enter_marks to_int session request class_name section_name w)))) s =
           (if s \<in> t_subject ` set (teachers_table (db w))
            then parsed_mark to_int (req_form request) (s_id student) s else None)"
proof -
  from enter_marks_stored
         [where w = w and session = session and request = request and student = student
            and class_name = class_name and section_name = section_name and to_int = to_int,
          OF assms(1-6)]
  obtain subjects where
    a: "set subjects = t_subject ` set (teachers_table (db w))" and
    r: "reliable (snd (enter_marks to_int session request class_name section_name w))" and
    g: "submitted_marks to_int (req_form request) subjects (s_id student) \<noteq> [] \<longrightarrow>
          stored_marks (db (snd (enter_marks to_int session request class_name section_name w)))
            (s_id student) =
          submitted_marks to_int (req_form request) subjects (s_id student)"
    by blast
  have "map_of (submitted_marks to_int (req_form request) subjects (s_id student)) subject = Some m"
    using a assms(7,8) by (simp add: submitted_marks_lookup)
  then have "submitted_marks to_int (req_form request) subjects (s_id student) \<noteq> []"
    by auto
  with g show ?thesis
    by (simp add: get_student_marks_reliable [OF r] submitted_marks_lookup a)
qed

text \<open>
  Claim C9. When the remote calls succeed, the mark rows of the student after
  \<open>save_marks\<close> are the entries of \<open>marks_data\<close>, in order, and nothing else; the rows
  of every other student are untouched; and reading the marks back gives \<open>marks_data\<close>
  itself (a dictionary has distinct keys). \<open>save_grades\<close> does the same for grades.
  Consequently, after a marks submission that gives a student of the class a mark in at
  least one subject, the student has a mark exactly in the subjects for which the form
  held one: whatever was stored for the other subjects is gone.
\<close>

theorem save_marks_replaces_all:
  assumes "reliable w"
  shows
    "map (\<lambda>r. (m_subject r, m_mark r))
       (filter (\<lambda>r. m_student_id r = student_id)
          (marks_table (db (snd (save_marks student_id marks_data w))))) = marks_data
     \<and> (\<forall>other. other \<noteq> student_id \<longrightarrow>
           filter (\<lambda>r. m_student_id r = other)
             (marks_table (db (snd (save_marks student_id marks_data w)))) =
           filter (\<lambda>r. m_student_id r = other) (marks_table (db w)))
     \<and> (distinct (map fst marks_data) \<longrightarrow>
           fst (get_student_marks student_id (snd (save_marks student_id marks_data w))) =
             marks_data)
     \<and> map (\<lambda>r. (g_subject r, g_grade r))
         (filter (\<lambda>r. g_student_id r = student_id)
            (grades_table (db (snd (save_grades student_id grades_data w))))) = grades_data
     \<and> (\<forall>other. other \<noteq> student_id \<longrightarrow>
           filter (\<lambda>r. g_student_id r = other)
             (grades_table (db (snd (save_grades student_id grades_data w)))) =
           filter (\<lambda>r. g_student_id r = other) (grades_table (db w)))
     \<and> (distinct (map fst grades_data) \<longrightarrow>
           fst (get_student_grades student_id (snd (save_grades student_id grades_data w))) =
             grades_data)
     \<and> (session ''role'' = Some ''teacher'' \<and> req_method request = POST
         \<and> student \<in> set (students_table (db w))
         \<and> s_class student = class_name \<and> s_section student = section_name
         \<and> subject \<in> t_subject ` set (teachers_table (db w))
         \<and> parsed_mark to_int (req_form request) (s_id student) subject = Some m \<longrightarrow>
         (\<forall>s. map_of (fst (get_student_marks (s_id student)
                  (snd (enter_marks to_int session request class_name section_name w)))) s =
               (if s \<in> t_subject ` set (teachers_table (db w))
                then parsed_mark to_int (req_form request) (s_id student) s else None)))"
  using save_marks_rows [OF assms, where sid = student_id and d = marks_data]
    save_grades_rows [OF assms, where sid = student_id and d = grades_data]
    save_marks_read_back [OF assms, where sid = student_id and d = marks_data]
    save_grades_read_back [OF assms, where sid = student_id and d = grades_data]
    enter_marks_read_back
      [where w = w and session = session and request = request and student = student
         and class_name = class_name and section_name = section_name and to_int = to_int
         and subject = subject and m = m, OF assms]
  by (intro conjI allI impI) (simp_all only:, blast+)

lemma mark_key_demo: "mark_key 1 ''Maths'' = ''marks_1_Maths''" "mark_key 1 ''Physics'' = ''marks_1_Physics''"
  by code_simp+

lemma decimal_int_95: "decimal_int ''95'' = Some 95"
  by (simp add: decimal_int_def)

theorem enter_marks_saves_table_grade_witness:
  "reliable (world_of school_tables)
   \<and> teacher_session ''role'' = Some ''teacher''
   \<and> req_method marks_request = POST
   \<and> demo_student \<in> set (students_table (db (world_of school_tables)))
   \<and> s_class demo_student = ''9'' \<and> s_section demo_student = ''A''
   \<and> ''Maths'' \<in> t_subject ` set (teachers_table (db (world_of school_tables)))
   \<and> req_form marks_request (mark_key (s_id demo_student) ''Maths'') = Some ''95''
   \<and> decimal_int ''95'' = Some 95
   \<and> map_of (fst (get_student_grades 1
         (snd (enter_marks decimal_int teacher_session marks_request ''9'' ''A''
                 (world_of school_tables))))) ''Maths'' = Some ''A''"
proof -
  have d: "db (world_of school_tables) = school_tables"
    by (simp add: world_of_def)
  have r: "reliable (world_of school_tables)"
    by (simp add: reliable_def world_of_def)
  have s: "teacher_session ''role'' = Some ''teacher''"
    by (simp add: teacher_session_def)
  have p: "req_method marks_request = POST"
    by (simp add: marks_request_def)
  have st: "demo_student \<in> set (students_table (db (world_of school_tables)))"
    unfolding d by (simp add: school_tables_def)
  have c: "s_class demo_student = ''9''" and sec: "s_section demo_student = ''A''"
    and i: "s_id demo_student = 1"
    by (simp_all add: demo_student_def)
  have t: "''Maths'' \<in> t_subject ` set (teachers_table (db (world_of school_tables)))"
    unfolding d by (simp add: school_tables_def)
  have f: "req_form marks_request (mark_key (s_id demo_student) ''Maths'') = Some ''95''"
    unfolding i mark_key_demo by (simp add: marks_request_def)
  have n: "''95'' \<noteq> []" by simp
  note v = decimal_int_95
  have g: "grade_table 95 = ''A''" by (simp add: grade_table_def)
  from enter_marks_saves_table_grade
         [where w = "world_of school_tables" and session = teacher_session
            and request = marks_request and student = demo_student and class_name = "''9''"
            and section_name = "''A''" and subject = "''Maths''" and mark_val = "''95''"
            and to_int = decimal_int and m = 95,
          OF r s p st c sec t f n v, unfolded i g]
  have "map_of (fst (get_student_grades 1
         (snd (enter_marks decimal_int teacher_session marks_request ''9'' ''A''
                 (world_of school_tables))))) ''Maths'' = Some ''A''"
    by (rule conjunct2)
  with r s p st c sec t f v show ?thesis by blast
qed

theorem save_marks_replaces_all_witness:
  "reliable (world_of school_tables)
   \<and> map_of (fst (get_student_marks 1 (world_of school_tables))) ''Physics'' = Some 78
   \<and> fst (get_student_marks 1 (snd (save_marks 1 [(''Maths'', 95)] (world_of school_tables)))) =
       [(''Maths'', 95)]
   \<and> parsed_mark decimal_int (req_form marks_request) 1 ''Maths'' = Some 95
   \<and> parsed_mark decimal_int (req_form marks_request) 1 ''Physics'' = None
   \<and> map_of (fst (get_student_marks 1
         (snd (enter_marks decimal_int teacher_session marks_request ''9'' ''A''
                 (world_of school_tables))))) ''Maths'' = Some 95
   \<and> map_of (fst (get_student_marks 1
         (snd (enter_marks decimal_int teacher_session marks_request ''9'' ''A''
                 (world_of school_tables))))) ''Physics'' = None"
proof -
  have d: "db (world_of school_tables) = school_tables"
    by (simp add: world_of_def)
  have r: "reliable (world_of school_tables)"
    by (simp add: reliable_def world_of_def)
  have b: "map_of (fst (get_student_marks 1 (world_of school_tables))) ''Physics'' = Some 78"
    unfolding get_student_marks_reliable [OF r] d
    by (simp add: stored_marks_def school_tables_def)
  have i: "s_id demo_student = 1" by (simp add: demo_student_def)
  have pm: "parsed_mark decimal_int (req_form marks_request) 1 ''Maths'' = Some 95"
    by (simp add: parsed_mark_def mark_key_demo marks_request_def decimal_int_95)
  have pp: "parsed_mark decimal_int (req_form marks_request) 1 ''Physics'' = None"
    by (simp add: parsed_mark_def mark_key_demo marks_request_def)
  have h: "teacher_session ''role'' = Some ''teacher'' \<and> req_method marks_request = POST
         \<and> demo_student \<in> set (students_table (db (world_of school_tables)))
         \<and> s_class demo_student = ''9'' \<and> s_section demo_student = ''A''
         \<and> ''Maths'' \<in> t_subject ` set (teachers_table (db (world_of school_tables)))
         \<and> parsed_mark decimal_int (req_form marks_request) (s_id demo_student) ''Maths'' =
             Some 95"
  proof -
    have "teacher_session ''role'' = Some ''teacher''"
      by (simp add: teacher_session_def)
    moreover have "req_method marks_request = POST"
      by (simp add: marks_request_def)
    moreover have "demo_student \<in> set (students_table (db (world_of school_tables)))"
      unfolding d by (simp add: school_tables_def)
    moreover have "s_class demo_student = ''9'' \<and> s_section demo_student = ''A''"
      by (simp add: demo_student_def)
    moreover have "''Maths'' \<in> t_subject ` set (teachers_table (db (world_of school_tables)))"
      unfolding d by (simp add: school_tables_def)
    ultimately show ?thesis using pm unfolding i by blast
  qed
  have ts: "t_subject ` set (teachers_table (db (world_of school_tables))) = {''Maths'', ''Physics''}"
    unfolding d by (simp add: school_tables_def)
  note inst = save_marks_replaces_all
      [where w = "world_of school_tables" and student_id = 1 and marks_data = "[(''Maths'', 95)]"
         and grades_data = "[(''Maths'', ''A'')]" and session = teacher_session
         and request = marks_request and student = demo_student and class_name = "''9''"
         and section_name = "''A''" and subject = "''Maths''" and to_int = decimal_int
         and m = 95, OF r]
  from inst have 1: "fst (get_student_marks 1
                      (snd (save_marks 1 [(''Maths'', 95)] (world_of school_tables)))) =
                    [(''Maths'', 95)]"
    by simp
  from inst h have 2: "\<forall>s. map_of (fst (get_student_marks (s_id demo_student)
                  (snd (enter_marks decimal_int teacher_session marks_request ''9'' ''A''
                          (world_of school_tables))))) s =
               (if s \<in> t_subject ` set (teachers_table (db (world_of school_tables)))
                then parsed_mark decimal_int (req_form marks_request) (s_id demo_student) s
                else None)"
    by blast
  from 2 [unfolded i ts] pm pp
  have 3: "map_of (fst (get_student_marks 1
         (snd (enter_marks decimal_int teacher_session marks_request ''9'' ''A''
                 (world_of school_tables))))) ''Maths'' = Some 95"
    and 4: "map_of (fst (get_student_marks 1
         (snd (enter_marks decimal_int teacher_session marks_request ''9'' ''A''
                 (world_of school_tables))))) ''Physics'' = None"
    by simp_all
  from r b 1 pm pp 3 4 show ?thesis by blast
qed

subsection \<open>The statistics of \<open>student_report\<close>\<close>

lemma sum_list_values:
  "distinct (map fst d) \<Longrightarrow>
   sum_list (map snd d) = (\<Sum>k \<in> dom (map_of d). the (map_of d k))"
  for d :: "('k \<times> int) list"
proof (induction d)
  case Nil
  show ?case by simp
next
  case (Cons p d)
  obtain k v where p: "p = (k, v)" by (cases p)
  from Cons.prems have fresh: "k \<notin> dom (map_of d)" and dist: "distinct (map fst d)"
    by (auto simp: p dom_map_of_conv_image_fst)
  have fin: "finite (dom (map_of d))" by (rule finite_dom_map_of)
  have same: "(\<Sum>x \<in> dom (map_of d). the (if x = k then Some v else map_of d x)) =
              (\<Sum>x \<in> dom (map_of d). the (map_of d x))"
    using fresh by (intro sum.cong) auto
  have dm: "dom (map_of (p # d)) = insert k (dom (map_of d))"
    by (simp add: p)
  have val: "map_of (p # d) x = (if x = k then Some v else map_of d x)" for x
    by (simp add: p)
  have "(\<Sum>x \<in> dom (map_of (p # d)). the (map_of (p # d) x)) =
          (\<Sum>x \<in> insert k (dom (map_of d)). the (if x = k then Some v else map_of d x))"
    unfolding dm val ..
  also have "\<dots> = v + (\<Sum>x \<in> dom (map_of d). the (if x = k then Some v else map_of d x))"
    using fin fresh by simp
  also have "\<dots> = v + (\<Sum>x \<in> dom (map_of d). the (map_of d x))"
    by (simp only: same)
  finally have "(\<Sum>x \<in> dom (map_of (p # d)). the (map_of (p # d) x)) =
                  v + sum_list (map snd d)"
    by (simp only: Cons.IH [OF dist])
  moreover have "sum_list (map snd (p # d)) = v + sum_list (map snd d)"
    by (simp add: p)
  ultimately show ?case by (simp only:)
qed

lemma length_keys: "distinct (map fst d) \<Longrightarrow> length d = card (dom (map_of d))"
  using distinct_card [of "map fst d"] by (simp add: dom_map_of_conv_image_fst)

lemma average_marks_spec:
  assumes "distinct (map fst marks)"
  shows "student_report_average_marks truediv marks = average_of truediv (map_of marks)"
proof (cases "marks = []")
  case True
  then show ?thesis by (simp add: student_report_average_marks_def average_of_def)
next
  case False
  then have "dom (map_of marks) \<noteq> {}"
    by (cases marks) auto
  with False show ?thesis
    by (simp add: student_report_average_marks_def average_of_def
        sum_list_values [OF assms] length_keys [OF assms])
qed

lemma dict_get_update:
  "dict_get (AList.update k v d) g dflt = (if g = k then v else dict_get d g dflt)"
  by (simp add: dict_get_def update_conv')

lemma grade_distribution_fold:
  "map_of (fold (\<lambda>grade gd. AList.update grade (Suc (dict_get gd grade 0)) gd) vs gd) g =
     (if count_list vs g = 0 then map_of gd g
      else Some (dict_get gd g 0 + count_list vs g))"
proof (induction vs arbitrary: gd)
  case Nil
  show ?case by simp
next
  case (Cons v vs)
  show ?case
    by (simp add: Cons.IH update_conv' dict_get_update)
qed

lemma count_list_values:
  "distinct (map fst d) \<Longrightarrow> count_list (map snd d) g = card {k. map_of d k = Some g}"
proof (induction d)
  case Nil
  show ?case by simp
next
  case (Cons p d)
  obtain k v where p: "p = (k, v)" by (cases p)
  from Cons.prems have fresh: "map_of d k = None" and dist: "distinct (map fst d)"
    by (auto simp: p map_of_eq_None_iff)
  have fin: "finite {x. map_of d x = Some g}"
    by (rule finite_subset [OF _ finite_dom_map_of [of d]]) auto
  have notin: "k \<notin> {x. map_of d x = Some g}" using fresh by simp
  have "{x. map_of (p # d) x = Some g} =
          (if v = g then insert k {x. map_of d x = Some g} else {x. map_of d x = Some g})"
    using fresh by (auto simp: p)
  then have "card {x. map_of (p # d) x = Some g} =
               (if v = g then Suc (card {x. map_of d x = Some g})
                else card {x. map_of d x = Some g})"
    using fin notin by simp
  with Cons.IH [OF dist] show ?case by (simp add: p)
qed

lemma grade_distribution_spec:
  assumes "distinct (map fst grades)"
  shows "map_of (student_report_grade_distribution grades) g =
           (if count_grade (map_of grades) g = 0 then None
            else Some (count_grade (map_of grades) g))"
proof (cases "grades = []")
  case True
  then show ?thesis by (simp add: student_report_grade_distribution_def count_grade_def)
next
  case False
  have empty: "dict_get ([] :: (string, nat) dict) g 0 = 0"
    by (simp add: dict_get_def)
  from False show ?thesis
    by (simp add: student_report_grade_distribution_def grade_distribution_fold
        count_list_values [OF assms] count_grade_def empty)
qed

lemma student_report_render:
  assumes "reliable w"
    and "session ''role'' \<in> {Some ''principal'', Some ''teacher''}"
    and "first_row (filter (\<lambda>s. s_id s = sid) (students_table (db w))) = Some student"
  shows "\<exists>attendance w'.
           student_report truediv roundf session sid w =
             (Render ''student_report.html''
                (student_report_data truediv roundf student (stored_marks (db w) sid)
                   (stored_grades (db w) sid) attendance, session ''username''), w')"
proof -
  let ?w1 = "snd (get_student sid w)"
  let ?w2 = "snd (get_student_marks sid ?w1)"
  let ?w3 = "snd (get_student_grades sid ?w2)"
  have r1: "reliable ?w1" and d1: "db ?w1 = db w"
    using assms(1) by (simp_all add: get_student_keeps)
  have r2: "reliable ?w2" and d2: "db ?w2 = db w"
    using r1 d1 by (simp_all add: get_student_marks_keeps)
  have gs: "fst (get_student sid w) = Some student"
    using assms(1,3) by (simp add: get_student_reliable_fst)
  have m: "fst (get_student_marks sid ?w1) = stored_marks (db w) sid"
    using r1 d1 by (simp add: get_student_marks_reliable)
  have g: "fst (get_student_grades sid ?w2) = stored_grades (db w) sid"
    using r2 d2 by (simp add: get_student_grades_reliable)
  have "student_report truediv roundf session sid w =
          (Render ''student_report.html''
             (student_report_data truediv roundf student (stored_marks (db w) sid) (stored_grades (db w) sid)
                (fst (get_student_attendance sid ?w3)),
              session ''username''), snd (get_student_attendance sid ?w3))"
    using assms(2) gs m g by (auto simp: student_report_def case_prod_beta)
  then show ?thesis by blast
qed

text \<open>
  Claim C4. In \<open>student_report\<close>, \<open>average_marks\<close> is the sum of the values of the
  marks dictionary divided by their number, and 0 when the dictionary is empty; and
  \<open>grade_distribution\<close> maps a letter to the number of subjects whose grade is that
  letter, a letter with no subject being absent. The report passes the average rounded
  to two decimals and the distribution as it is. For every student found, with the remote
  calls succeeding, the dictionaries are the student's stored marks and grades.
  The division and the rounding are Python's, whatever \<open>float\<close> they return:
  the statement holds for every \<open>truediv\<close> and \<open>roundf\<close>.
\<close>

theorem student_report_statistics:
  assumes "distinct (map fst marks)" and "distinct (map fst grades)"
  shows "student_report_average_marks truediv marks = average_of truediv (map_of marks)
         \<and> map_of (student_report_grade_distribution grades) grade =
             (if count_grade (map_of grades) grade = 0 then None
              else Some (count_grade (map_of grades) grade))
         \<and> rd_average_marks
             (student_report_data truediv roundf student marks grades attendance) =
             py_round roundf (average_of truediv (map_of marks))
         \<and> rd_grade_distribution
             (student_report_data truediv roundf student marks grades attendance) =
             student_report_grade_distribution grades
         \<and> (reliable w \<and> session ''role'' \<in> {Some ''principal'', Some ''teacher''}
             \<and> first_row (filter (\<lambda>s. s_id s = student_id) (students_table (db w))) =
                 Some student \<longrightarrow>
             (\<exists>rd u w'.
                student_report truediv roundf session student_id w =
                  (Render ''student_report.html'' (rd, u), w')
                \<and> rd_average_marks rd =
                    py_round roundf (average_of truediv (map_of (stored_marks (db w) student_id)))
                \<and> (\<forall>g. map_of (rd_grade_distribution rd) g =
                      (if count_grade (map_of (stored_grades (db w) student_id)) g = 0 then None
                       else Some (count_grade (map_of (stored_grades (db w) student_id)) g)))))"
proof (intro conjI impI)
  show "student_report_average_marks truediv marks = average_of truediv (map_of marks)"
    by (rule average_marks_spec [OF assms(1)])
  show "map_of (student_report_grade_distribution grades) grade =
             (if count_grade (map_of grades) grade = 0 then None
              else Some (count_grade (map_of grades) grade))"
    by (rule grade_distribution_spec [OF assms(2)])
  show "rd_average_marks (student_report_data truediv roundf student marks grades attendance) =
             py_round roundf (average_of truediv (map_of marks))"
    by (simp add: student_report_data_def average_marks_spec [OF assms(1)])
  show "rd_grade_distribution (student_report_data truediv roundf student marks grades attendance) =
             student_report_grade_distribution grades"
    by (simp add: student_report_data_def)
next
  assume h: "reliable w \<and> session ''role'' \<in> {Some ''principal'', Some ''teacher''}
             \<and> first_row (filter (\<lambda>s. s_id s = student_id) (students_table (db w))) =
                 Some student"
  from student_report_render
         [where w = w and session = session and sid = student_id and student = student
            and truediv = truediv and roundf = roundf] h
  obtain att w' where
    e: "student_report truediv roundf session student_id w =
          (Render ''student_report.html''
             (student_report_data truediv roundf student (stored_marks (db w) student_id)
                (stored_grades (db w) student_id) att, session ''username''), w')"
    by blast
  let ?rd = "student_report_data truediv roundf student (stored_marks (db w) student_id)
                (stored_grades (db w) student_id) att"
  have a: "rd_average_marks ?rd =
             py_round roundf (average_of truediv (map_of (stored_marks (db w) student_id)))"
    by (simp add: student_report_data_def average_marks_spec [OF stored_marks_distinct])
  have b: "\<forall>g. map_of (rd_grade_distribution ?rd) g =
             (if count_grade (map_of (stored_grades (db w) student_id)) g = 0 then None
              else Some (count_grade (map_of (stored_grades (db w) student_id)) g))"
    by (simp add: student_report_data_def grade_distribution_spec [OF stored_grades_distinct])
  from e a b
  show "\<exists>rd u w'.
          student_report truediv roundf session student_id w = (Render ''student_report.html'' (rd, u), w')
          \<and> rd_average_marks rd =
              py_round roundf (average_of truediv (map_of (stored_marks (db w) student_id)))
          \<and> (\<forall>g. map_of (rd_grade_distribution rd) g =
                (if count_grade (map_of (stored_grades (db w) student_id)) g = 0 then None
                 else Some (count_grade (map_of (stored_grades (db w) student_id)) g)))"
    by blast
qed

lemma average_of_report_marks: "average_of exact_div (map_of report_marks) = PyFloat (169 / 2)"
proof -
  have "dom (map_of report_marks) = {''Maths'', ''Physics''}"
    by (auto simp: report_marks_def split: if_splits)
  then show ?thesis
    by (simp add: average_of_def report_marks_def exact_div_def)
qed

lemma count_grade_report_grades:
  "count_grade (map_of report_grades) ''A'' = 2"
  "count_grade (map_of report_grades) ''B'' = 0"
proof -
  have "{s. map_of report_grades s = Some ''A''} = {''Maths'', ''Chemistry''}"
    by (auto simp: report_grades_def split: if_splits)
  then show "count_grade (map_of report_grades) ''A'' = 2"
    by (simp add: count_grade_def)
  have "{s. map_of report_grades s = Some ''B''} = {}"
    by (auto simp: report_grades_def split: if_splits)
  then show "count_grade (map_of report_grades) ''B'' = 0"
    by (simp add: count_grade_def)
qed

lemma py_round2_half: "py_round2 (169 / 2) = 169 / 2"
  by (simp add: py_round2_def round_half_even_def)

theorem student_report_statistics_witness:
  "distinct (map fst report_marks) \<and> distinct (map fst report_grades)
   \<and> student_report_average_marks exact_div report_marks = PyFloat (169 / 2)
   \<and> map_of (student_report_grade_distribution report_grades) ''A'' = Some 2
   \<and> map_of (student_report_grade_distribution report_grades) ''B'' = None
   \<and> rd_average_marks
       (student_report_data exact_div py_round2 demo_student report_marks report_grades []) =
       PyFloat (169 / 2)
   \<and> reliable (world_of school_tables)
   \<and> teacher_session ''role'' \<in> {Some ''principal'', Some ''teacher''}
   \<and> first_row (filter (\<lambda>s. s_id s = 1) (students_table (db (world_of school_tables)))) =
       Some demo_student
   \<and> (\<exists>rd u w'.
         student_report exact_div py_round2 teacher_session 1 (world_of school_tables) =
           (Render ''student_report.html'' (rd, u), w')
         \<and> rd_average_marks rd = PyFloat (169 / 2))"
proof -
  have dm: "distinct (map fst report_marks)" by (simp add: report_marks_def)
  have dg: "distinct (map fst report_grades)" by (simp add: report_grades_def)
  have d: "db (world_of school_tables) = school_tables"
    by (simp add: world_of_def)
  have r: "reliable (world_of school_tables)"
    by (simp add: reliable_def world_of_def)
  have s: "teacher_session ''role'' \<in> {Some ''principal'', Some ''teacher''}"
    by (simp add: teacher_session_def)
  have f: "first_row (filter (\<lambda>s. s_id s = 1) (students_table (db (world_of school_tables)))) =
             Some demo_student"
    unfolding d by (simp add: school_tables_def demo_student_def first_row_def)
  have sm: "stored_marks (db (world_of school_tables)) 1 = report_marks"
    unfolding d by (simp add: stored_marks_def school_tables_def report_marks_def)
  note a = student_report_statistics
      [where marks = report_marks and grades = report_grades and grade = "''A''"
         and student = demo_student and attendance = "[]" and w = "world_of school_tables"
         and session = teacher_session and student_id = 1 and truediv = exact_div
         and roundf = py_round2, OF dm dg,
       unfolded sm average_of_report_marks count_grade_report_grades py_round.simps
         py_round2_half]
  note b = student_report_statistics
      [where marks = report_marks and grades = report_grades and grade = "''B''"
         and student = demo_student and attendance = "[]" and w = "world_of school_tables"
         and session = teacher_session and student_id = 1 and truediv = exact_div
         and roundf = py_round2, OF dm dg,
       unfolded count_grade_report_grades]
  from a have 1: "student_report_average_marks exact_div report_marks = PyFloat (169 / 2)"
    and 2: "map_of (student_report_grade_distribution report_grades) ''A'' = Some 2"
    and 3: "rd_average_marks (student_report_data exact_div py_round2 demo_student report_marks report_grades []) =
              PyFloat (169 / 2)"
    by simp_all
  from b have 4: "map_of (student_report_grade_distribution report_grades) ''B'' = None"
    by simp
  from a r s f have 5: "\<exists>rd u w'.
         student_report exact_div py_round2 teacher_session 1 (world_of school_tables) =
           (Render ''student_report.html'' (rd, u), w')
         \<and> rd_average_marks rd = PyFloat (169 / 2)"
    by blast
  from dm dg 1 2 3 4 r s f 5 show ?thesis by blast
qed

subsection \<open>A remote call that raises is caught\<close>

text \<open>
  When the first remote call of a database method raises, the method prints the error
  and returns its failure value; \<open>verify_user\<close> then returns \<open>None\<close>, through
  \<open>get_user\<close>.
\<close>

lemma execute_raises_before:
  "faults w = Raises_before msg # fs \<Longrightarrow>
   execute request w = (Inl (RemoteException msg), w\<lparr>faults := fs\<rparr>)"
  by (simp add: execute_def)

lemma remote_failure_is_caught:
  assumes "faults w = Raises_before msg # fs"
  shows "get_user username w = (None, print (''Error getting user: '' @ msg) (w\<lparr>faults := fs\<rparr>))"
    and "get_student sid w =
           (None, print (''Error getting student: '' @ msg) (w\<lparr>faults := fs\<rparr>))"
    and "get_all_students w =
           ([], print (''Error getting students: '' @ msg) (w\<lparr>faults := fs\<rparr>))"
    and "delete_student sid w =
           (False, print (''Error deleting student: '' @ msg) (w\<lparr>faults := fs\<rparr>))"
    and "get_all_teachers w =
           ([], print (''Error getting teachers: '' @ msg) (w\<lparr>faults := fs\<rparr>))"
    and "save_marks sid marks_data w =
           ([], print (''Error saving marks: '' @ msg) (w\<lparr>faults := fs\<rparr>))"
    and "get_student_marks sid w =
           ([], print (''Error getting marks: '' @ msg) (w\<lparr>faults := fs\<rparr>))"
    and "save_grades sid grades_data w =
           ([], print (''Error saving grades: '' @ msg) (w\<lparr>faults := fs\<rparr>))"
    and "get_student_grades sid w =
           ([], print (''Error getting grades: '' @ msg) (w\<lparr>faults := fs\<rparr>))"
    and "db_mark_attendance sid date_str face_data w =
           (None, print (''Error marking attendance: '' @ msg) (w\<lparr>faults := fs\<rparr>))"
    and "get_student_attendance sid w =
           ([], print (''Error getting attendance: '' @ msg) (w\<lparr>faults := fs\<rparr>))"
    and "verify_user checkpw username password w =
           (Inr None, print (''Error getting user: '' @ msg) (w\<lparr>faults := fs\<rparr>))"
  by (simp_all add: execute_raises_before [OF assms] get_user_def get_student_def
      get_all_students_def delete_student_def get_all_teachers_def save_marks_def
      get_student_marks_def save_grades_def get_student_grades_def db_mark_attendance_def
      get_student_attendance_def verify_user_def)

subsection \<open>The average of the report is Python's quotient, rounded by Python\<close>

text \<open>
  For a student with marks, the field \<open>average_marks\<close> of the report is
  \<open>round(sum / len, 2)\<close> with both operations as Python computes them; the model
  fixes no value for a quotient that is not a \<open>float\<close>.
\<close>

lemma student_report_average_field:
  "marks \<noteq> [] \<Longrightarrow>
   rd_average_marks (student_report_data truediv roundf student marks grades attendance) =
     PyFloat (roundf (truediv (sum_list (map snd marks)) (int (length marks))))"
  by (simp add: student_report_data_def student_report_average_marks_def)

lemma student_report_average_field_empty:
  "rd_average_marks (student_report_data truediv roundf student [] grades attendance) = PyInt 0"
  by (simp add: student_report_data_def student_report_average_marks_def)

end
